theory Spec2Isabelle
  imports Complex_Main
begin

section \<open>Step sequencer (js/tutorialStepManager.js)\<close>

text \<open>
  A step configuration as written in the \<open>stepConfigs\<close> table of the constructor. A field
  that an entry does not set reads as \<open>undefined\<close> in the source, which is falsy: it is
  \<open>False\<close> for the two booleans and \<open>None\<close> for the validation key and the step type.
\<close>

record stepConfig =
  stepType :: "string option"
  required :: bool
  autoAdvance :: bool
  validation :: "string option"

definition mkConfig :: "string \<Rightarrow> bool \<Rightarrow> bool \<Rightarrow> string option \<Rightarrow> stepConfig" where
  "mkConfig t r a v = \<lparr>stepType = Some t, required = r, autoAdvance = a, validation = v\<rparr>"

definition emptyConfig :: stepConfig where
  "emptyConfig = \<lparr>stepType = None, required = False, autoAdvance = False, validation = None\<rparr>"

definition stepConfigs :: "int \<Rightarrow> stepConfig option" where
  "stepConfigs n =
     (if n = 1 then Some (mkConfig ''intro'' False False None)
      else if n = 2 then Some (mkConfig ''action'' True True (Some ''video_played''))
      else if n = 3 then Some (mkConfig ''info'' False False None)
      else if n = 4 then Some (mkConfig ''action'' True True (Some ''clicked_yes''))
      else if n = 5 then Some (mkConfig ''input'' True False (Some ''entered_text''))
      else if n = 6 then Some (mkConfig ''action'' True True (Some ''clicked_start_time''))
      else if n = 7 then Some (mkConfig ''action'' True True (Some ''clicked_end_time''))
      else if n = 8 then Some (mkConfig ''info'' False False None)
      else if n = 9 then Some (mkConfig ''action'' True True (Some ''clicked_save''))
      else if n = 10 then Some (mkConfig ''completion'' False False None)
      else None)"

definition requiredActionMessages :: "int \<Rightarrow> string option" where
  "requiredActionMessages n =
     (if n = 2 then Some ''Please play the video to continue.''
      else if n = 4 then Some ''Please click the 'Yes' button to continue.''
      else if n = 5 then Some ''Please enter some text in the onomatopoeia field to continue.''
      else if n = 6 then Some ''Please click the 'Get Start Time' button to continue.''
      else if n = 7 then Some ''Please click the 'Get End Time' button to continue.''
      else if n = 9 then Some ''Please click the 'Save Onomatopoeia' button to continue.''
      else if n = 12 then Some ''Please click the 'No' button to continue.''
      else None)"

text \<open>
  The mutable fields of a \<open>TutorialStepManager\<close>. Step numbers are JavaScript numbers
  used as integers; \<open>stepValidation\<close> is the object of flags, a key being an own property
  exactly when it is in the domain of the map. The record is extensible: whatever else a
  callback can reach (the page that owns the manager) lives in the extension.
\<close>

record sequencer =
  totalSteps :: int
  currentStep :: int
  stepValidation :: "string \<rightharpoonup> bool"

definition initialValidation :: "string \<rightharpoonup> bool" where
  "initialValidation =
     [''video_played'' \<mapsto> False, ''clicked_yes'' \<mapsto> False, ''entered_text'' \<mapsto> False,
      ''clicked_start_time'' \<mapsto> False, ''clicked_end_time'' \<mapsto> False,
      ''clicked_save'' \<mapsto> False]"

definition resetValidation :: "'a sequencer_scheme \<Rightarrow> 'a sequencer_scheme" where
  "resetValidation s = s\<lparr>stepValidation := initialValidation\<rparr>"

definition newSequencer :: "int \<Rightarrow> sequencer" where
  "newSequencer n =
     resetValidation \<lparr>totalSteps = n, currentStep = 1, stepValidation = Map.empty\<rparr>"

definition getStepConfig :: "int \<Rightarrow> stepConfig" where
  "getStepConfig stepNumber =
     (case stepConfigs stepNumber of Some c \<Rightarrow> c | None \<Rightarrow> emptyConfig)"

definition canAdvance :: "'a sequencer_scheme \<Rightarrow> bool" where
  "canAdvance s =
     (let config = getStepConfig (currentStep s) in
      if \<not> required config then True
      else (case validation config of
              Some k \<Rightarrow> (case stepValidation s k of Some flag \<Rightarrow> flag | None \<Rightarrow> True)
            | None \<Rightarrow> True))"

definition getRequiredActionMessage :: "'a sequencer_scheme \<Rightarrow> string option" where
  "getRequiredActionMessage s = requiredActionMessages (currentStep s)"

definition resetStepSpecificValidation :: "'a sequencer_scheme \<Rightarrow> 'a sequencer_scheme" where
  "resetStepSpecificValidation s = s"

text \<open>
  A callback is a function of the source that runs in the middle of a method and may reach
  the manager again; it is a state transformer here, \<open>None\<close> being the default \<open>null\<close>.
\<close>

type_synonym ('x, 'a) callback = "('x \<Rightarrow> 'a sequencer_scheme \<Rightarrow> 'a sequencer_scheme) option"

definition advance ::
  "(int, 'a) callback \<Rightarrow> (string, 'a) callback \<Rightarrow> 'a sequencer_scheme
     \<Rightarrow> bool \<times> 'a sequencer_scheme" where
  "advance onAdvance onRequiredAction s =
     (if \<not> canAdvance s then
        (case (onRequiredAction, getRequiredActionMessage s) of
           (Some cb, Some message) \<Rightarrow> (False, cb message s)
         | _ \<Rightarrow> (False, s))
      else if currentStep s < totalSteps s then
        (let s1 = resetStepSpecificValidation (s\<lparr>currentStep := currentStep s + 1\<rparr>) in
         case onAdvance of
           Some cb \<Rightarrow> (True, cb (currentStep s1) s1)
         | None \<Rightarrow> (True, s1))
      else (False, s))"

definition goBack :: "(int, 'a) callback \<Rightarrow> 'a sequencer_scheme \<Rightarrow> bool \<times> 'a sequencer_scheme" where
  "goBack onGoBack s =
     (if currentStep s > 1 then
        (let s1 = resetStepSpecificValidation (s\<lparr>currentStep := currentStep s - 1\<rparr>) in
         case onGoBack of
           Some cb \<Rightarrow> (True, cb (currentStep s1) s1)
         | None \<Rightarrow> (True, s1))
      else (False, s))"

definition markActionCompleted ::
  "string \<Rightarrow> (string \<times> bool, 'a) callback \<Rightarrow> (int \<times> string, 'a) callback
     \<Rightarrow> 'a sequencer_scheme \<Rightarrow> 'a sequencer_scheme" where
  "markActionCompleted action onValidationChange onAutoAdvance s =
     (if action \<in> dom (stepValidation s) then
        (let s1 = s\<lparr>stepValidation := (stepValidation s)(action \<mapsto> True)\<rparr>;
             s2 = (case onValidationChange of Some cb \<Rightarrow> cb (action, True) s1 | None \<Rightarrow> s1);
             config = getStepConfig (currentStep s2)
         in if autoAdvance config \<and> validation config = Some action then
              (case onAutoAdvance of
                 Some cb \<Rightarrow> cb (currentStep s2, action) s2
               | None \<Rightarrow> s2)
            else s2)
      else s)"

definition isActionCompleted :: "string \<Rightarrow> 'a sequencer_scheme \<Rightarrow> bool" where
  "isActionCompleted action s = (case stepValidation s action of Some b \<Rightarrow> b | None \<Rightarrow> False)"

definition isComplete :: "'a sequencer_scheme \<Rightarrow> bool" where
  "isComplete s = (currentStep s \<ge> totalSteps s)"

definition goToStep ::
  "int \<Rightarrow> (int, 'a) callback \<Rightarrow> 'a sequencer_scheme \<Rightarrow> bool \<times> 'a sequencer_scheme" where
  "goToStep stepNumber onStepChange s =
     (if stepNumber \<ge> 1 \<and> stepNumber \<le> totalSteps s then
        (let s1 = s\<lparr>currentStep := stepNumber\<rparr> in
         case onStepChange of
           Some cb \<Rightarrow> (True, cb (currentStep s1) s1)
         | None \<Rightarrow> (True, s1))
      else (False, s))"

text \<open>
  The object handed to \<open>importState\<close>: each field may be missing. The source tests
  \<open>state.currentStep\<close> and \<open>state.totalSteps\<close> for truthiness, so a missing field and
  the number 0 are both skipped.
\<close>

record exportedState =
  exCurrentStep :: "int option"
  exStepValidation :: "(string \<rightharpoonup> bool) option"
  exTotalSteps :: "int option"

definition exportState :: "'a sequencer_scheme \<Rightarrow> exportedState" where
  "exportState s =
     \<lparr>exCurrentStep = Some (currentStep s), exStepValidation = Some (stepValidation s),
      exTotalSteps = Some (totalSteps s)\<rparr>"

definition truthyNumber :: "int option \<Rightarrow> bool" where
  "truthyNumber x = (case x of Some n \<Rightarrow> n \<noteq> 0 | None \<Rightarrow> False)"

definition importState :: "exportedState \<Rightarrow> 'a sequencer_scheme \<Rightarrow> 'a sequencer_scheme" where
  "importState state s =
     (let s1 = (if truthyNumber (exCurrentStep state)
                then s\<lparr>currentStep := max 1 (min (the (exCurrentStep state)) (totalSteps s))\<rparr>
                else s);
          s2 = (case exStepValidation state of
                  Some imported \<Rightarrow>
                    s1\<lparr>stepValidation :=
                         (\<lambda>key. if key \<in> dom (stepValidation s1) \<and> key \<in> dom imported
                                then imported key else stepValidation s1 key)\<rparr>
                | None \<Rightarrow> s1)
      in if truthyNumber (exTotalSteps state)
         then s2\<lparr>totalSteps := the (exTotalSteps state)\<rparr>
         else s2)"

subsection \<open>The tutorial page's use of the sequencer (tutorialApp.js)\<close>

text \<open>
  The page owns one manager and reacts to it through callbacks. What the callbacks do to the
  document is recorded as a log of the page methods they call; none of them writes to the
  manager.
\<close>

datatype ui_event =
  UpdateProgress int
  | ShowTutorialStep int
  | ShowErrorMessage string
  | UpdateNextButtonState bool
  | CompleteTutorial

record tutorialApp = sequencer +
  uiLog :: "ui_event list"

definition newTutorialApp :: tutorialApp where
  "newTutorialApp = sequencer.extend (newSequencer 10) \<lparr>uiLog = []\<rparr>"

definition logUi :: "ui_event \<Rightarrow> tutorialApp \<Rightarrow> tutorialApp" where
  "logUi e app = app\<lparr>uiLog := uiLog app @ [e]\<rparr>"

definition updateProgress :: "tutorialApp \<Rightarrow> tutorialApp" where
  "updateProgress app = logUi (UpdateProgress (currentStep app)) app"

definition showTutorialStep :: "tutorialApp \<Rightarrow> tutorialApp" where
  "showTutorialStep app = logUi (ShowTutorialStep (currentStep app)) app"

definition updateNextButtonState :: "tutorialApp \<Rightarrow> tutorialApp" where
  "updateNextButtonState app = logUi (UpdateNextButtonState (canAdvance app)) app"

definition completeTutorial :: "tutorialApp \<Rightarrow> tutorialApp" where
  "completeTutorial app = logUi CompleteTutorial app"

definition initializeTutorial :: "tutorialApp \<Rightarrow> tutorialApp" where
  "initializeTutorial app = resetValidation app"

definition startTutorial :: "tutorialApp \<Rightarrow> tutorialApp" where
  "startTutorial app = showTutorialStep (updateProgress (snd (goToStep 1 None app)))"

definition nextStep :: "tutorialApp \<Rightarrow> tutorialApp" where
  "nextStep app =
     (let (advanced, app1) =
            advance (Some (\<lambda>newStep a. showTutorialStep (updateProgress a)))
                    (Some (\<lambda>message a. logUi (ShowErrorMessage message) a)) app
      in if \<not> advanced \<and> isComplete app1 then completeTutorial app1 else app1)"

definition previousStep :: "tutorialApp \<Rightarrow> tutorialApp" where
  "previousStep app =
     snd (goBack (Some (\<lambda>newStep a. showTutorialStep (updateProgress a))) app)"

definition checkStepValidation :: "string \<Rightarrow> tutorialApp \<Rightarrow> tutorialApp" where
  "checkStepValidation action app =
     markActionCompleted action
       (Some (\<lambda>(actionName, completed) a. updateNextButtonState a))
       (Some (\<lambda>(stepNumber, actionName) a. nextStep a)) app"

subsection \<open>Properties of states\<close>

definition inRange :: "'a sequencer_scheme \<Rightarrow> bool" where
  "inRange s = (1 \<le> currentStep s \<and> currentStep s \<le> totalSteps s)"

text \<open>A callback that leaves the flags of the manager as it found them.\<close>

definition keepsFlags :: "('x, 'a) callback \<Rightarrow> bool" where
  "keepsFlags cb =
     (case cb of None \<Rightarrow> True
      | Some f \<Rightarrow> \<forall>x t. stepValidation (f x t) = stepValidation t)"

text \<open>The manager of the tutorial page after \<open>goToStep(k)\<close> on a fresh instance.\<close>

definition atStep :: "int \<Rightarrow> sequencer" where
  "atStep k = snd (goToStep k None (newSequencer 10))"

section \<open>JavaScript values\<close>

text \<open>
  The values that occur as cells of rows and as fields of records: \<open>undefined\<close> (also what a
  hole of an array and a missing property read as), \<open>null\<close>, booleans, numbers and strings,
  and the recorded audio, a \<open>Blob\<close> of which only a label is kept. Finite numbers are real
  numbers here; \<open>NaN\<close> and the two infinities are values of their own. Rounding to doubles
  is outside the model.
\<close>

datatype jsval =
  Undefined
  | Null
  | Bool bool
  | Num real
  | NaN
  | PosInf
  | NegInf
  | Str string
  | Blob string

datatype js_error =
  Error string
  | TypeError string
  | RangeError string

fun message :: "js_error \<Rightarrow> string" where
  "message (Error m) = m"
| "message (TypeError m) = m"
| "message (RangeError m) = m"

text \<open>A natural number in a template literal.\<close>

definition digitChar :: "nat \<Rightarrow> char" where
  "digitChar n = ''0123456789'' ! n"

function showNat :: "nat \<Rightarrow> string" where
  "showNat n = (if n < 10 then [digitChar n] else showNat (n div 10) @ [digitChar (n mod 10)])"
  by pat_completeness auto
termination
  by (relation "measure id") auto

declare showNat.simps [simp del]

text \<open>
  Three operations of the language are taken as they are, as parameters: \<open>toLowerCase\<close> of
  a string, the loose equality \<open>==\<close> of two values, and the decimal text of a finite number
  (\<open>String(x)\<close>).
\<close>

record runtime =
  toLowerCase :: "string \<Rightarrow> string"
  looseEquals :: "jsval \<Rightarrow> jsval \<Rightarrow> bool"
  numberToString :: "real \<Rightarrow> string"

section \<open>Row finder and mapper (GoogleSheetsService, unnamed/part_004)\<close>

type_synonym row = "jsval list"

text \<open>\<open>row[i]\<close>: \<open>undefined\<close> beyond the end of the array.\<close>

definition cellAt :: "row \<Rightarrow> nat \<Rightarrow> jsval" where
  "cellAt r i = (if i < length r then r ! i else Undefined)"

text \<open>
  A criterion is a column index with what is expected there: a literal, or a function of
  the cell, the row and the row index (\<open>typeof expectedValue === 'function'\<close>).
\<close>

datatype matcher =
  Literal jsval
  | Predicate "jsval \<Rightarrow> row \<Rightarrow> nat \<Rightarrow> bool"

type_synonym criteria = "(nat \<times> matcher) list"

record rowMatch =
  rowIndex :: nat
  data :: row

definition criterionHolds :: "runtime \<Rightarrow> row \<Rightarrow> nat \<Rightarrow> nat \<times> matcher \<Rightarrow> bool" where
  "criterionHolds js r i c =
     (let actualValue = cellAt r (fst c) in
      case snd c of
        Predicate expected \<Rightarrow> expected actualValue r i
      | Literal expectedValue \<Rightarrow>
          (case (expectedValue, actualValue) of
             (Str e, Str a) \<Rightarrow> toLowerCase js a = toLowerCase js e
           | _ \<Rightarrow> looseEquals js actualValue expectedValue))"

text \<open>The inner loop over the criteria, which leaves at the first one that fails.\<close>

fun rowMatches :: "runtime \<Rightarrow> row \<Rightarrow> nat \<Rightarrow> criteria \<Rightarrow> bool" where
  "rowMatches js r i [] = True"
| "rowMatches js r i (c # cs) =
     (if \<not> criterionHolds js r i c then False else rowMatches js r i cs)"

text \<open>The outer loop \<open>for (let i = 1; i < data.length; i++)\<close> with its result array.\<close>

function findRowsFrom ::
  "runtime \<Rightarrow> row list \<Rightarrow> criteria \<Rightarrow> nat \<Rightarrow> rowMatch list \<Rightarrow> rowMatch list" where
  "findRowsFrom js rows crit i results =
     (if i < length rows then
        findRowsFrom js rows crit (i + 1)
          (if rowMatches js (rows ! i) i crit
           then results @ [\<lparr>rowIndex = i, data = rows ! i\<rparr>]
           else results)
      else results)"
  by pat_completeness auto
termination
  by (relation "measure (\<lambda>(js, rows, crit, i, results). length rows - i)") auto

declare findRowsFrom.simps [simp del]

text \<open>\<open>None\<close> is a table that is \<open>null\<close> or \<open>undefined\<close> (\<open>!data\<close>).\<close>

definition findRows :: "runtime \<Rightarrow> row list option \<Rightarrow> criteria \<Rightarrow> rowMatch list" where
  "findRows js table crit =
     (case table of
        None \<Rightarrow> []
      | Some rows \<Rightarrow> if length rows \<le> 1 then [] else findRowsFrom js rows crit 1 [])"

definition findRow :: "runtime \<Rightarrow> row list option \<Rightarrow> criteria \<Rightarrow> rowMatch option" where
  "findRow js table crit =
     (let results = findRows js table crit in
      if length results > 0 then Some (results ! 0) else None)"

text \<open>
  An object is a finite map from its own property names; reading a property that is not
  there gives \<open>undefined\<close> (what every object inherits, such as \<open>toString\<close>, is not
  modelled). A column mapping is the list of its entries, in the order of
  \<open>Object.entries\<close>.
\<close>

type_synonym jsobject = "string \<rightharpoonup> jsval"

definition readProp :: "jsobject \<Rightarrow> string \<Rightarrow> jsval" where
  "readProp obj key = (case obj key of Some v \<Rightarrow> v | None \<Rightarrow> Undefined)"

type_synonym columnMapping = "(string \<times> nat) list"

abbreviation readCells :: "row \<Rightarrow> string \<times> nat \<Rightarrow> jsobject \<Rightarrow> jsobject" where
  "readCells r \<equiv> (\<lambda>(key, columnIndex) obj. obj(key \<mapsto> cellAt r columnIndex))"

definition transformRowToObject :: "row \<Rightarrow> columnMapping \<Rightarrow> jsobject" where
  "transformRowToObject r columnMapping = fold (readCells r) columnMapping Map.empty"

text \<open>
  \<open>Math.max()\<close> of no arguments is \<open>-Infinity\<close>, and \<open>new Array(-Infinity)\<close> throws a
  RangeError: an empty mapping has no row. Otherwise the array starts as holes only and
  every entry writes its cell; the index is within the array by the choice of its length.
\<close>

abbreviation writeCells :: "jsobject \<Rightarrow> string \<times> nat \<Rightarrow> row \<Rightarrow> row" where
  "writeCells obj \<equiv> (\<lambda>(key, columnIndex) r. r[columnIndex := readProp obj key])"

definition transformObjectToRow :: "jsobject \<Rightarrow> columnMapping \<Rightarrow> js_error + row" where
  "transformObjectToRow obj columnMapping =
     (if columnMapping = [] then Inl (RangeError ''Invalid array length'')
      else Inr (fold (writeCells obj) columnMapping
                  (replicate (Max (set (map snd columnMapping)) + 1) Undefined)))"

definition participantMapping :: columnMapping where
  "participantMapping =
     [(''participantId'', 0), (''email'', 1), (''name'', 2), (''age'', 3), (''gender'', 4),
      (''nativeLanguage'', 5), (''registrationTimestamp'', 6)]"

definition onomatopoeiaMapping :: columnMapping where
  "onomatopoeiaMapping =
     [(''participantId'', 0), (''participantName'', 1), (''video'', 2), (''movement'', 3),
      (''startTime'', 4), (''endTime'', 5), (''answeredTimestamp'', 6), (''hasAudio'', 7),
      (''audioFileName'', 8), (''emotion'', 9)]"

text \<open>
  A runtime for examples: lower case of the letters A to Z, equality of values that are
  written the same, and the digits of the whole part of a number that is not negative. It
  stands for no more than that.
\<close>

definition lowerChar :: "char \<Rightarrow> char" where
  "lowerChar c =
     (if 65 \<le> (of_char c :: nat) \<and> (of_char c :: nat) \<le> 90
      then char_of (of_char c + 32 :: nat) else c)"

definition exampleRuntime :: runtime where
  "exampleRuntime =
     \<lparr>toLowerCase = map lowerChar, looseEquals = (\<lambda>a b. a = b \<and> a \<noteq> NaN),
      numberToString = (\<lambda>x. showNat (nat \<lfloor>x\<rfloor>))\<rparr>"

definition duplicateIndexMapping :: columnMapping where
  "duplicateIndexMapping = [(''a'', 0), (''b'', 0)]"

definition duplicateIndexObject :: jsobject where
  "duplicateIndexObject = [''a'' \<mapsto> Num 1, ''b'' \<mapsto> Num 2]"

section \<open>Bubble positioner (BubblePositioner, unnamed/part_006)\<close>

text \<open>
  The coordinates are numbers of the language, doubles, and the positioner adds, subtracts
  and halves them with the language's own rounded \<open>+\<close>, \<open>-\<close> and \<open>/ 2\<close>. These three are taken
  as they are, parameters of the model, and every sum and difference below is written in
  the order in which the source evaluates it. The numbers are the values of a linear order,
  compared with \<open>\<le>\<close> and chosen between with \<open>max\<close> and \<open>min\<close>, as \<open>>=\<close>, \<open><=\<close>, \<open>Math.max\<close> and
  \<open>Math.min\<close> do on doubles other than \<open>NaN\<close>: a rectangle of the page and the size of the
  window are never \<open>NaN\<close>, and no operation below yields it from finite numbers.
\<close>

record 'n arithmetic =
  addNum :: "'n \<Rightarrow> 'n \<Rightarrow> 'n"
  subNum :: "'n \<Rightarrow> 'n \<Rightarrow> 'n"
  halfNum :: "'n \<Rightarrow> 'n"

text \<open>
  A rectangle as \<open>getBoundingClientRect\<close> returns it, all six numbers as they are read, and a
  placement of the bubble with the arrow class that goes with it.
\<close>

record 'n rect =
  rectLeft :: 'n
  rectTop :: 'n
  rectRight :: 'n
  rectBottom :: 'n
  rectWidth :: 'n
  rectHeight :: 'n

record 'n placement =
  posLeft :: 'n
  posTop :: 'n
  arrow :: string

text \<open>
  The table \<open>strategies\<close> of \<open>generatePositionStrategies\<close>, by the name of the preference; a
  name that is not one of its four keys finds nothing. (The names that every object
  inherits, such as \<open>toString\<close>, are not keys of the table and are not modelled.)
\<close>

definition strategyNamed ::
  "'n arithmetic \<Rightarrow> 'n rect \<Rightarrow> 'n rect \<Rightarrow> 'n \<Rightarrow> string \<Rightarrow> 'n placement option" where
  "strategyNamed ar targetRect bubbleRect offset pref =
     (if pref = ''right'' then
        Some \<lparr>posLeft = addNum ar (rectRight targetRect) offset,
              posTop = subNum ar (addNum ar (rectTop targetRect)
                                     (halfNum ar (rectHeight targetRect)))
                         (halfNum ar (rectHeight bubbleRect)),
              arrow = ''arrow-left''\<rparr>
      else if pref = ''left'' then
        Some \<lparr>posLeft = subNum ar (subNum ar (rectLeft targetRect) (rectWidth bubbleRect))
                          offset,
              posTop = subNum ar (addNum ar (rectTop targetRect)
                                     (halfNum ar (rectHeight targetRect)))
                         (halfNum ar (rectHeight bubbleRect)),
              arrow = ''arrow-right''\<rparr>
      else if pref = ''below'' then
        Some \<lparr>posLeft = subNum ar (addNum ar (rectLeft targetRect)
                                      (halfNum ar (rectWidth targetRect)))
                          (halfNum ar (rectWidth bubbleRect)),
              posTop = addNum ar (rectBottom targetRect) offset,
              arrow = ''arrow-top''\<rparr>
      else if pref = ''above'' then
        Some \<lparr>posLeft = subNum ar (addNum ar (rectLeft targetRect)
                                      (halfNum ar (rectWidth targetRect)))
                          (halfNum ar (rectWidth bubbleRect)),
              posTop = subNum ar (subNum ar (rectTop targetRect) (rectHeight bubbleRect))
                         offset,
              arrow = ''arrow-bottom''\<rparr>
      else None)"

text \<open>\<open>preferences.map(pref => strategies[pref]).filter(Boolean)\<close>\<close>

definition generatePositionStrategies ::
  "'n arithmetic \<Rightarrow> 'n rect \<Rightarrow> 'n rect \<Rightarrow> 'n \<Rightarrow> string list \<Rightarrow> 'n placement list" where
  "generatePositionStrategies ar targetRect bubbleRect offset preferences =
     map the (filter (\<lambda>s. s \<noteq> None)
                (map (strategyNamed ar targetRect bubbleRect offset) preferences))"

definition fitsHorizontally ::
  "('n::linorder) arithmetic \<Rightarrow> 'n placement \<Rightarrow> 'n rect \<Rightarrow> 'n \<Rightarrow> 'n \<Rightarrow> bool" where
  "fitsHorizontally ar strategy bubbleRect viewportWidth padding =
     (posLeft strategy \<ge> padding \<and>
      addNum ar (posLeft strategy) (rectWidth bubbleRect) \<le> subNum ar viewportWidth padding)"

definition fitsVertically ::
  "('n::linorder) arithmetic \<Rightarrow> 'n placement \<Rightarrow> 'n rect \<Rightarrow> 'n \<Rightarrow> 'n \<Rightarrow> bool" where
  "fitsVertically ar strategy bubbleRect viewportHeight padding =
     (posTop strategy \<ge> padding \<and>
      addNum ar (posTop strategy) (rectHeight bubbleRect) \<le> subNum ar viewportHeight padding)"

definition constrainToViewport ::
  "('n::linorder) arithmetic \<Rightarrow> 'n placement \<Rightarrow> 'n rect \<Rightarrow> 'n \<Rightarrow> 'n \<Rightarrow> 'n \<Rightarrow> 'n placement"
  where
  "constrainToViewport ar position bubbleRect viewportWidth viewportHeight padding =
     \<lparr>posLeft = max padding
                  (min (posLeft position)
                     (subNum ar (subNum ar viewportWidth (rectWidth bubbleRect)) padding)),
      posTop = max padding
                 (min (posTop position)
                    (subNum ar (subNum ar viewportHeight (rectHeight bubbleRect)) padding)),
      arrow = arrow position\<rparr>"

text \<open>The loop \<open>for (const strategy of strategies)\<close>, which returns at the first fit.\<close>

fun firstFitting ::
  "('n::linorder) arithmetic \<Rightarrow> 'n placement list \<Rightarrow> 'n rect \<Rightarrow> 'n \<Rightarrow> 'n \<Rightarrow> 'n \<Rightarrow>
     'n placement option" where
  "firstFitting ar [] bubbleRect viewportWidth viewportHeight padding = None"
| "firstFitting ar (strategy # rest) bubbleRect viewportWidth viewportHeight padding =
     (if fitsHorizontally ar strategy bubbleRect viewportWidth padding \<and>
         fitsVertically ar strategy bubbleRect viewportHeight padding
      then Some strategy
      else firstFitting ar rest bubbleRect viewportWidth viewportHeight padding)"

text \<open>
  The fallback is \<open>strategies[0] || strategies.right\<close>. \<open>strategies\<close> is an array here, so
  \<open>strategies.right\<close> is \<open>undefined\<close>, and with no strategy at all \<open>constrainToViewport\<close>
  reads \<open>position.left\<close> of \<open>undefined\<close>: a TypeError.
\<close>

definition findBestPosition ::
  "('n::linorder) arithmetic \<Rightarrow> 'n placement list \<Rightarrow> 'n rect \<Rightarrow> 'n \<Rightarrow> 'n \<Rightarrow> 'n \<Rightarrow>
     js_error + 'n placement" where
  "findBestPosition ar strategies bubbleRect viewportWidth viewportHeight padding =
     (case firstFitting ar strategies bubbleRect viewportWidth viewportHeight padding of
        Some strategy \<Rightarrow> Inr strategy
      | None \<Rightarrow>
          (case strategies of
             [] \<Rightarrow> Inl (TypeError ''Cannot read properties of undefined (reading 'left')'')
           | fallbackStrategy # _ \<Rightarrow>
               Inr (constrainToViewport ar fallbackStrategy bubbleRect viewportWidth
                      viewportHeight padding)))"

definition placementNames :: "string set" where
  "placementNames = {''right'', ''left'', ''below'', ''above''}"

text \<open>
  An arithmetic for examples: the exact one of the real numbers. On the whole numbers and
  halves of the examples below the sums and differences of doubles are exact as well.
\<close>

definition exactArithmetic :: "real arithmetic" where
  "exactArithmetic = \<lparr>addNum = (+), subNum = (-), halfNum = (\<lambda>x. x / 2)\<rparr>"

definition exampleTarget :: "real rect" where
  "exampleTarget =
     \<lparr>rectLeft = 300, rectTop = 100, rectRight = 400, rectBottom = 150,
      rectWidth = 100, rectHeight = 50\<rparr>"

definition exampleBubble :: "real rect" where
  "exampleBubble =
     \<lparr>rectLeft = 0, rectTop = 0, rectRight = 300, rectBottom = 120,
      rectWidth = 300, rectHeight = 120\<rparr>"

section \<open>Remote store client (GoogleSheetsService, unnamed/part_004)\<close>

subsection \<open>The world outside the page\<close>

text \<open>
  What is sent and what comes back. A body is kept as the value handed to
  \<open>JSON.stringify\<close>, after the replacements \<open>JSON.stringify\<close> makes in an array
  (\<open>jsonCell\<close> below). In a batch request a cell is \<open>String(cell)\<close>; the conversion is left
  unevaluated as \<open>StringValue cell\<close>.
\<close>

datatype cellData = StringValue jsval

datatype batchRequest =
  AppendCells jsval "cellData list list"
  | UpdateCells jsval jsval jsval jsval jsval "cellData list list"

datatype httpBody =
  NoBody
  | ValuesBody "row list"
  | RequestsBody "batchRequest option list"

record request =
  url :: string
  httpMethod :: string
  headers :: "(string \<times> string) list"
  body :: httpBody

record errorObject =
  errorMessage :: "string option"

record jsonObject =
  jsonValues :: "row list option"
  jsonError :: "errorObject option"

datatype json =
  JObject jsonObject
  | JPrimitive jsval

record response =
  ok :: bool
  status :: nat
  statusText :: string
  parsedBody :: "js_error + json"

text \<open>
  Everything the code does to the outside is an event, in the order it happens: requests,
  waits, console lines, and what the page shows. The outside answers as a function of the
  events so far: \<open>respond\<close> is the network behind \<open>fetch\<close>, \<open>tokenAt\<close> the token provider
  behind \<open>getAccessToken\<close>.
\<close>

datatype event =
  TokenRequested
  | Fetch request
  | Delay nat
  | ConsoleWarn string string
  | ConsoleError string
  | UploadAudio "jsval list"
  | ShowError string
  | ShowSuccess string
  | ClearMessage
  | ResetDisplay
  | VideoChanged string
  | EndOfVideos

record world =
  events :: "event list"
  respond :: "event list \<Rightarrow> request \<Rightarrow> js_error + response"
  tokenAt :: "event list \<Rightarrow> js_error + string"

type_synonym ('e, 'a, 'w) action = "'w \<Rightarrow> ('e + 'a) \<times> 'w"

definition emit :: "event \<Rightarrow> 'x world_scheme \<Rightarrow> 'x world_scheme" where
  "emit e w = w\<lparr>events := events w @ [e]\<rparr>"

definition getAccessToken :: "(js_error, string, 'x world_scheme) action" where
  "getAccessToken w = (tokenAt w (events w), emit TokenRequested w)"

definition fetch :: "request \<Rightarrow> (js_error, response, 'x world_scheme) action" where
  "fetch req w = (respond w (events w) req, emit (Fetch req) w)"

text \<open>Sequencing of awaited steps: the first rejection ends the function.\<close>

definition andThen ::
  "('e, 'a, 'w) action \<Rightarrow> ('a \<Rightarrow> ('e, 'b, 'w) action) \<Rightarrow> ('e, 'b, 'w) action" where
  "andThen m f w = (case m w of (Inl e, w') \<Rightarrow> (Inl e, w') | (Inr v, w') \<Rightarrow> f v w')"

definition resolve :: "'a \<Rightarrow> ('e, 'a, 'w) action" where
  "resolve v w = (Inr v, w)"

definition throw :: "'e \<Rightarrow> ('e, 'a, 'w) action" where
  "throw e w = (Inl e, w)"


subsection \<open>Retry\<close>

record googleSheetsService =
  retryAttempts :: nat
  retryDelay :: nat

definition newGoogleSheetsService :: googleSheetsService where
  "newGoogleSheetsService = \<lparr>retryAttempts = 3, retryDelay = 1000\<rparr>"

definition delay :: "nat \<Rightarrow> 'x world_scheme \<Rightarrow> 'x world_scheme" where
  "delay ms w = emit (Delay ms) w"

definition warnAttemptFailed ::
  "googleSheetsService \<Rightarrow> string \<Rightarrow> nat \<Rightarrow> js_error \<Rightarrow> 'x world_scheme \<Rightarrow> 'x world_scheme" where
  "warnAttemptFailed svc context attempt err w =
     emit (ConsoleWarn
             (context @ '' - Attempt '' @ showNat attempt @ ''/'' @
              showNat (retryAttempts svc) @ '' failed:'')
             (message err)) w"

definition errorAllFailed :: "string \<Rightarrow> 'x world_scheme \<Rightarrow> 'x world_scheme" where
  "errorAllFailed context w = emit (ConsoleError (context @ '' - All retry attempts failed'')) w"

text \<open>
  The loop \<open>for (let attempt = 1; attempt <= this.retryAttempts; attempt++)\<close> from a given
  \<open>attempt\<close> on, with \<open>lastError\<close> as it stands (\<open>None\<close> is \<open>undefined\<close>), and what follows
  the loop. The thrown value is \<open>lastError\<close> itself; with \<open>retryAttempts = 0\<close> that is
  \<open>undefined\<close>.
\<close>

function withRetryFrom ::
  "googleSheetsService \<Rightarrow> (js_error, 'a, 'x world_scheme) action \<Rightarrow> string \<Rightarrow> nat \<Rightarrow>
     js_error option \<Rightarrow> (js_error option, 'a, 'x world_scheme) action" where
  "withRetryFrom svc operation context attempt lastError w =
     (if attempt \<le> retryAttempts svc then
        (case operation w of
           (Inr v, w1) \<Rightarrow> (Inr v, w1)
         | (Inl err, w1) \<Rightarrow>
             (let w2 = warnAttemptFailed svc context attempt err w1;
                  w3 = (if attempt < retryAttempts svc
                        then delay (retryDelay svc * attempt) w2 else w2)
              in withRetryFrom svc operation context (attempt + 1) (Some err) w3))
      else (Inl lastError, errorAllFailed context w))"
  by pat_completeness auto
termination
  by (relation "measure (\<lambda>(svc, operation, context, attempt, lastError, w).
                  retryAttempts svc + 1 - attempt)") auto

declare withRetryFrom.simps [simp del]

definition withRetry ::
  "googleSheetsService \<Rightarrow> (js_error, 'a, 'x world_scheme) action \<Rightarrow> string \<Rightarrow>
     (js_error option, 'a, 'x world_scheme) action" where
  "withRetry svc operation context w = withRetryFrom svc operation context 1 None w"

subsection \<open>The four operations\<close>

definition httpError :: "response \<Rightarrow> js_error" where
  "httpError resp = Error (''HTTP '' @ showNat (status resp) @ '': '' @ statusText resp)"

definition parsed :: "response \<Rightarrow> (js_error, json, 'w) action" where
  "parsed resp w = (parsedBody resp, w)"

definition authorization :: "string \<Rightarrow> string \<times> string" where
  "authorization accessToken = (''Authorization'', ''Bearer '' @ accessToken)"

definition contentTypeJson :: "string \<times> string" where
  "contentTypeJson = (''Content-Type'', ''application/json'')"

definition sheetsUrl :: string where
  "sheetsUrl = ''https://sheets.googleapis.com/v4/spreadsheets/''"

text \<open>
  \<open>data.values || []\<close> of the parsed body; reading a property of \<open>null\<close> throws, of any other
  primitive it gives \<open>undefined\<close>.
\<close>

definition valuesOrEmpty :: "json \<Rightarrow> (js_error, row list, 'w) action" where
  "valuesOrEmpty d =
     (case d of
        JObject obj \<Rightarrow> resolve (case jsonValues obj of Some v \<Rightarrow> v | None \<Rightarrow> [])
      | JPrimitive p \<Rightarrow>
          if p = Null \<or> p = Undefined
          then throw (TypeError ''Cannot read properties of null (reading 'values')'')
          else resolve [])"

text \<open>
  \<open>if (result.error) throw new Error(`Sheets API error: ${result.error.message || 'Unknown
  error'}`); return result;\<close>
\<close>

definition checkedResult :: "json \<Rightarrow> (js_error, json, 'w) action" where
  "checkedResult result =
     (case result of
        JObject obj \<Rightarrow>
          (case jsonError obj of
             Some err \<Rightarrow>
               throw (Error (''Sheets API error: '' @
                        (case errorMessage err of
                           Some m \<Rightarrow> if m = [] then ''Unknown error'' else m
                         | None \<Rightarrow> ''Unknown error'')))
           | None \<Rightarrow> resolve result)
      | JPrimitive p \<Rightarrow>
          if p = Null \<or> p = Undefined
          then throw (TypeError ''Cannot read properties of null (reading 'error')'')
          else resolve result)"

definition getSheetDataAttempt :: "string \<Rightarrow> string \<Rightarrow> (js_error, row list, 'x world_scheme) action" where
  "getSheetDataAttempt spreadsheetId sheetName =
     andThen getAccessToken (\<lambda>accessToken.
     andThen (fetch \<lparr>url = sheetsUrl @ spreadsheetId @ ''/values/'' @ sheetName,
                     httpMethod = ''GET'', headers = [authorization accessToken],
                     body = NoBody\<rparr>) (\<lambda>resp.
     if \<not> ok resp then throw (httpError resp)
     else andThen (parsed resp) valuesOrEmpty))"

definition getSheetData ::
  "googleSheetsService \<Rightarrow> string \<Rightarrow> string \<Rightarrow> (js_error option, row list, 'x world_scheme) action" where
  "getSheetData svc spreadsheetId sheetName =
     withRetry svc (getSheetDataAttempt spreadsheetId sheetName)
       (''Getting data from sheet '' @ sheetName)"

text \<open>
  The argument of \<open>appendSheetData\<close> is one row or a list of rows:
  \<open>Array.isArray(newData[0]) ? newData : [newData]\<close>. An empty list of rows has no first
  element and is wrapped like a row.
\<close>

datatype rowData =
  OneRow row
  | ManyRows "row list"

definition normalizeRows :: "rowData \<Rightarrow> row list" where
  "normalizeRows newData =
     (case newData of
        OneRow r \<Rightarrow> [r]
      | ManyRows [] \<Rightarrow> [[]]
      | ManyRows rs \<Rightarrow> rs)"

text \<open>
  What \<open>JSON.stringify\<close> writes for a cell of an array: \<open>null\<close> for \<open>undefined\<close>, for a
  hole, for \<open>NaN\<close> and for the infinities.
\<close>

definition jsonCell :: "jsval \<Rightarrow> jsval" where
  "jsonCell v = (if v = Undefined \<or> v = NaN \<or> v = PosInf \<or> v = NegInf then Null else v)"

definition appendRequest :: "string \<Rightarrow> string \<Rightarrow> string \<Rightarrow> rowData \<Rightarrow> request" where
  "appendRequest accessToken spreadsheetId sheetName newData =
     \<lparr>url = sheetsUrl @ spreadsheetId @ ''/values/'' @ sheetName @
             '':append?valueInputOption=RAW&insertDataOption=INSERT_ROWS'',
      httpMethod = ''POST'',
      headers = [contentTypeJson, authorization accessToken],
      body = ValuesBody (map (map jsonCell) (normalizeRows newData))\<rparr>"

definition appendSheetDataAttempt ::
  "string \<Rightarrow> string \<Rightarrow> rowData \<Rightarrow> (js_error, json, 'x world_scheme) action" where
  "appendSheetDataAttempt spreadsheetId sheetName newData =
     andThen getAccessToken (\<lambda>accessToken.
     andThen (fetch (appendRequest accessToken spreadsheetId sheetName newData)) (\<lambda>resp.
     if \<not> ok resp then throw (httpError resp)
     else andThen (parsed resp) checkedResult))"

definition appendSheetData ::
  "googleSheetsService \<Rightarrow> string \<Rightarrow> string \<Rightarrow> rowData \<Rightarrow>
     (js_error option, json, 'x world_scheme) action" where
  "appendSheetData svc spreadsheetId sheetName newData =
     withRetry svc (appendSheetDataAttempt spreadsheetId sheetName newData)
       (''Appending data to sheet '' @ sheetName)"

definition updateSheetDataAttempt ::
  "string \<Rightarrow> string \<Rightarrow> row list \<Rightarrow> (js_error, json, 'x world_scheme) action" where
  "updateSheetDataAttempt spreadsheetId cellRange rows =
     andThen getAccessToken (\<lambda>accessToken.
     andThen (fetch \<lparr>url = sheetsUrl @ spreadsheetId @ ''/values/'' @ cellRange @
                           ''?valueInputOption=RAW'',
                     httpMethod = ''PUT'',
                     headers = [contentTypeJson, authorization accessToken],
                     body = ValuesBody (map (map jsonCell) rows)\<rparr>) (\<lambda>resp.
     if \<not> ok resp then throw (httpError resp)
     else andThen (parsed resp) checkedResult))"

definition updateSheetData ::
  "googleSheetsService \<Rightarrow> string \<Rightarrow> string \<Rightarrow> row list \<Rightarrow>
     (js_error option, json, 'x world_scheme) action" where
  "updateSheetData svc spreadsheetId cellRange rows =
     withRetry svc (updateSheetDataAttempt spreadsheetId cellRange rows)
       (''Updating range '' @ cellRange @ '' in spreadsheet'')"

text \<open>
  An abstract operation of \<open>batchUpdate\<close>; a \<open>type\<close> other than \<open>'append'\<close> and \<open>'update'\<close>
  falls through the \<open>switch\<close> and maps to \<open>undefined\<close>.
\<close>

datatype operation =
  AppendOp jsval "row list"
  | UpdateOp jsval jsval jsval jsval jsval "row list"
  | OtherOp

definition cellRows :: "row list \<Rightarrow> cellData list list" where
  "cellRows rows = map (map StringValue) rows"

fun toBatchRequest :: "operation \<Rightarrow> batchRequest option" where
  "toBatchRequest (AppendOp sheetId rows) = Some (AppendCells sheetId (cellRows rows))"
| "toBatchRequest (UpdateOp sheetId startRow endRow startCol endCol rows) =
     Some (UpdateCells sheetId startRow endRow startCol endCol (cellRows rows))"
| "toBatchRequest OtherOp = None"

definition batchUpdateAttempt ::
  "string \<Rightarrow> operation list \<Rightarrow> (js_error, json, 'x world_scheme) action" where
  "batchUpdateAttempt spreadsheetId operations =
     andThen getAccessToken (\<lambda>accessToken.
     andThen (fetch \<lparr>url = sheetsUrl @ spreadsheetId @ '':batchUpdate'',
                     httpMethod = ''POST'',
                     headers = [contentTypeJson, authorization accessToken],
                     body = RequestsBody (map toBatchRequest operations)\<rparr>) (\<lambda>resp.
     if \<not> ok resp then throw (httpError resp)
     else andThen (parsed resp) checkedResult))"

definition batchUpdate ::
  "googleSheetsService \<Rightarrow> string \<Rightarrow> operation list \<Rightarrow>
     (js_error option, json, 'x world_scheme) action" where
  "batchUpdate svc spreadsheetId operations =
     withRetry svc (batchUpdateAttempt spreadsheetId operations)
       (''Batch updating spreadsheet '' @ spreadsheetId)"

subsection \<open>Example worlds\<close>

definition isDelay :: "event \<Rightarrow> bool" where
  "isDelay e = (case e of Delay ms \<Rightarrow> True | _ \<Rightarrow> False)"

definition serverError :: response where
  "serverError =
     \<lparr>ok = False, status = 500, statusText = ''Internal Server Error'',
      parsedBody = Inr (JPrimitive Null)\<rparr>"

definition okWith :: "json \<Rightarrow> response" where
  "okWith j = \<lparr>ok = True, status = 200, statusText = ''OK'', parsedBody = Inr j\<rparr>"

definition sheetRows :: "row list" where
  "sheetRows = [[Str ''participantId'', Str ''email''], [Str ''1'', Str ''a@b.com'']]"

text \<open>A server that is down, and one that is up once the client has waited twice.\<close>

definition downWorld :: world where
  "downWorld =
     \<lparr>events = [], respond = (\<lambda>history req. Inr serverError),
      tokenAt = (\<lambda>history. Inr ''token'')\<rparr>"

definition flakyWorld :: world where
  "flakyWorld =
     \<lparr>events = [],
      respond = (\<lambda>history req.
        if length (filter isDelay history) < 2 then Inr serverError
        else Inr (okWith (JObject \<lparr>jsonValues = Some sheetRows, jsonError = None\<rparr>))),
      tokenAt = (\<lambda>history. Inr ''token'')\<rparr>"

definition upWorld :: world where
  "upWorld =
     \<lparr>events = [],
      respond = (\<lambda>history req.
        Inr (okWith (JObject \<lparr>jsonValues = None, jsonError = None\<rparr>))),
      tokenAt = (\<lambda>history. Inr ''token'')\<rparr>"

text \<open>The flaky world after the first and after the second failed attempt to read a sheet.\<close>

definition flakyAfter1 :: world where
  "flakyAfter1 =
     delay 1000
       (warnAttemptFailed newGoogleSheetsService ''Getting data from sheet Sheet1'' 1
          (Error ''HTTP 500: Internal Server Error'')
          (snd (getSheetDataAttempt ''id'' ''Sheet1'' flakyWorld)))"

definition flakyAfter2 :: world where
  "flakyAfter2 =
     delay 2000
       (warnAttemptFailed newGoogleSheetsService ''Getting data from sheet Sheet1'' 2
          (Error ''HTTP 500: Internal Server Error'')
          (snd (getSheetDataAttempt ''id'' ''Sheet1'' flakyAfter1)))"

definition isFetch :: "event \<Rightarrow> bool" where
  "isFetch e = (case e of Fetch r \<Rightarrow> True | _ \<Rightarrow> False)"

text \<open>The number of requests in the trace of a world.\<close>

definition requestsSent :: "'x world_scheme \<Rightarrow> nat" where
  "requestsSent w = length (filter isFetch (events w))"

section \<open>Saving a response (js/surveyApp.js, utils.js, GoogleSheetsService)\<close>

subsection \<open>Operators and built-in functions\<close>

definition truthy :: "jsval \<Rightarrow> bool" where
  "truthy v =
     (case v of
        Undefined \<Rightarrow> False
      | Null \<Rightarrow> False
      | Bool b \<Rightarrow> b
      | Num x \<Rightarrow> x \<noteq> 0
      | NaN \<Rightarrow> False
      | Str s \<Rightarrow> s \<noteq> []
      | _ \<Rightarrow> True)"

text \<open>\<open>a || b\<close> and \<open>a === b\<close> on these values.\<close>

definition orElse :: "jsval \<Rightarrow> jsval \<Rightarrow> jsval" where
  "orElse a b = (if truthy a then a else b)"

definition strictEquals :: "jsval \<Rightarrow> jsval \<Rightarrow> bool" where
  "strictEquals a b = (a = b \<and> a \<noteq> NaN)"

text \<open>
  White space is the white space of ASCII: tab, line feed, vertical tab, form feed,
  carriage return and space. (The language counts further characters as white space, the
  no-break space among them; they are not modelled.)
\<close>

definition isSpace :: "char \<Rightarrow> bool" where
  "isSpace c = ((of_char c :: nat) \<in> {9, 10, 11, 12, 13, 32})"

definition trim :: "string \<Rightarrow> string" where
  "trim s = rev (dropWhile isSpace (rev (dropWhile isSpace s)))"

definition isDigit :: "char \<Rightarrow> bool" where
  "isDigit c = (48 \<le> (of_char c :: nat) \<and> (of_char c :: nat) \<le> 57)"

definition digitsVal :: "string \<Rightarrow> nat" where
  "digitsVal ds = foldl (\<lambda>a c. 10 * a + ((of_char c :: nat) - 48)) 0 ds"

definition isHexDigit :: "char \<Rightarrow> bool" where
  "isHexDigit c =
     (isDigit c \<or> (65 \<le> (of_char c :: nat) \<and> (of_char c :: nat) \<le> 70) \<or>
      (97 \<le> (of_char c :: nat) \<and> (of_char c :: nat) \<le> 102))"

definition hexDigitVal :: "char \<Rightarrow> nat" where
  "hexDigitVal c =
     (if isDigit c then (of_char c :: nat) - 48
      else if (of_char c :: nat) \<le> 70 then (of_char c :: nat) - 55
      else (of_char c :: nat) - 87)"

definition hexDigitsVal :: "string \<Rightarrow> nat" where
  "hexDigitsVal ds = foldl (\<lambda>a c. 16 * a + hexDigitVal c) 0 ds"

text \<open>A leading sign, taken off: whether it was a minus, and the rest.\<close>

definition takeSign :: "string \<Rightarrow> bool \<times> string" where
  "takeSign s =
     (case s of
        c # r \<Rightarrow> if c = CHR ''-'' then (True, r) else if c = CHR ''+'' then (False, r)
                 else (False, s)
      | [] \<Rightarrow> (False, s))"

text \<open>The exponent part after the digits, 0 when there is none with a digit in it.\<close>

definition exponentOf :: "string \<Rightarrow> int" where
  "exponentOf s =
     (case s of
        c # r \<Rightarrow>
          if c = CHR ''e'' \<or> c = CHR ''E'' then
            (let (neg, r') = takeSign r; ds = takeWhile isDigit r' in
             if ds = [] then 0
             else if neg then - int (digitsVal ds) else int (digitsVal ds))
          else 0
      | [] \<Rightarrow> 0)"

text \<open>
  \<open>parseFloat\<close> of a string: the longest prefix, after white space, that is a decimal
  literal (sign, \<open>Infinity\<close> or digits with an optional fraction and exponent) gives the
  number, and \<open>NaN\<close> when there is no such prefix. The number is the exact value of the
  literal, where the language takes the double nearest to it, an infinity beyond the
  largest double.
\<close>

definition parseFloatString :: "string \<Rightarrow> jsval" where
  "parseFloatString s =
     (let (neg, s2) = takeSign (dropWhile isSpace s) in
      if take 8 s2 = ''Infinity'' then (if neg then NegInf else PosInf)
      else
        (let ip = takeWhile isDigit s2;
             r1 = dropWhile isDigit s2;
             (fp, r2) = (case r1 of
                           c # r \<Rightarrow> if c = CHR ''.''
                                    then (takeWhile isDigit r, dropWhile isDigit r)
                                    else ([], r1)
                         | [] \<Rightarrow> ([], r1))
         in if ip = [] \<and> fp = [] then NaN
            else
              (let mantissa = real (digitsVal ip) + real (digitsVal fp) / 10 ^ length fp;
                   ex = exponentOf r2;
                   scaled = (if ex \<ge> 0 then mantissa * 10 ^ nat ex
                             else mantissa / 10 ^ nat (- ex))
               in Num (if neg then - scaled else scaled))))"

text \<open>
  \<open>parseInt\<close> of a string with no radix given: base 16 after \<open>0x\<close>, base 10 otherwise.
\<close>

definition parseIntString :: "string \<Rightarrow> jsval" where
  "parseIntString s =
     (let (neg, s2) = takeSign (dropWhile isSpace s);
          hex = (case s2 of
                   a # b # r \<Rightarrow> a = CHR ''0'' \<and> (b = CHR ''x'' \<or> b = CHR ''X'')
                 | _ \<Rightarrow> False);
          ds = (if hex then takeWhile isHexDigit (drop 2 s2) else takeWhile isDigit s2);
          n = (if hex then hexDigitsVal ds else digitsVal ds)
      in if ds = [] then NaN
         else Num (if neg then - real n else real n))"

definition toStringJs :: "runtime \<Rightarrow> jsval \<Rightarrow> string" where
  "toStringJs js v =
     (case v of
        Undefined \<Rightarrow> ''undefined''
      | Null \<Rightarrow> ''null''
      | Bool b \<Rightarrow> (if b then ''true'' else ''false'')
      | Num x \<Rightarrow> numberToString js x
      | NaN \<Rightarrow> ''NaN''
      | PosInf \<Rightarrow> ''Infinity''
      | NegInf \<Rightarrow> ''-Infinity''
      | Str s \<Rightarrow> s
      | Blob b \<Rightarrow> ''[object Blob]'')"

definition parseFloat :: "runtime \<Rightarrow> jsval \<Rightarrow> jsval" where
  "parseFloat js v = parseFloatString (toStringJs js v)"

definition parseInt :: "runtime \<Rightarrow> jsval \<Rightarrow> jsval" where
  "parseInt js v = parseIntString (toStringJs js v)"

subsection \<open>Validation (ValidationUtils.validateOnomatopoeiaData)\<close>

text \<open>
  The result is the error message of an invalid record, or \<open>None\<close> for \<open>{ isValid: true }\<close>.
  A \<open>movement\<close> that is truthy and not a string has no \<open>trim\<close>: a TypeError.
\<close>

definition validateOnomatopoeiaData ::
  "(string \<Rightarrow> string) \<Rightarrow> jsobject \<Rightarrow> js_error + string option" where
  "validateOnomatopoeiaData text infoDict =
     (let movement = readProp infoDict ''movement'' in
      if \<not> truthy movement then Inr (Some (text ''survey.error_enter_onomatopoeia''))
      else
        (case movement of
           Str s \<Rightarrow>
             if trim s = [] then Inr (Some (text ''survey.error_enter_onomatopoeia''))
             else if strictEquals (readProp infoDict ''startTime'') (Str ''-.--'')
               then Inr (Some (text ''survey.error_record_start''))
             else if strictEquals (readProp infoDict ''endTime'') (Str ''-.--'')
               then Inr (Some (text ''survey.error_record_end''))
             else if \<not> truthy (readProp infoDict ''participantId'') \<or>
                     \<not> truthy (readProp infoDict ''video'') \<or>
                     \<not> truthy (readProp infoDict ''answeredTimestamp'')
               then Inr (Some (text ''survey.error_saving_general''))
             else Inr None
         | _ \<Rightarrow> Inl (TypeError ''infoDict.movement.trim is not a function'')))"

subsection \<open>The page and its browser\<close>

text \<open>
  The browser adds to the world the upload of a recording (\<open>uploadAudioFile\<close>, answered as
  a function of the events so far), the clock behind \<open>obtainDate\<close>, the texts of the
  language manager and the local storage, which holds what \<open>JSON.stringify\<close> wrote.
\<close>

record browser = world +
  uploadAt :: "event list \<Rightarrow> jsval list \<Rightarrow> js_error + jsval"
  clock :: "event list \<Rightarrow> string"
  getText :: "string \<Rightarrow> string"
  localStorage :: "string \<rightharpoonup> jsobject list"

text \<open>
  The fields of the survey page that saving reads and writes. \<open>videoNames\<close> are the video
  buttons in their order, \<open>currentButton\<close> the position of the active one (\<open>None\<close> when
  \<open>getCurrentActiveButton()\<close> is \<open>null\<close>).
\<close>

record surveyApp = browser +
  filteredData :: "jsobject list"
  participantInfo :: jsobject
  currentVideoName :: jsval
  videoNames :: "string list"
  currentButton :: "nat option"
  configSpreadsheetId :: string
  configOnomatopoeiaSheet :: string

definition obtainDate :: "'x browser_scheme \<Rightarrow> jsval" where
  "obtainDate w = Str (clock w (events w))"

definition uploadAudioFile :: "jsval list \<Rightarrow> (js_error, jsval, 'x browser_scheme) action" where
  "uploadAudioFile args w = (uploadAt w (events w) args, emit (UploadAudio args) w)"

text \<open>What \<open>JSON.stringify\<close> keeps of an object: no property that is \<open>undefined\<close>.\<close>

definition jsonObjectOf :: "jsobject \<Rightarrow> jsobject" where
  "jsonObjectOf obj =
     (\<lambda>key. case obj key of
               None \<Rightarrow> None
             | Some v \<Rightarrow> if v = Undefined then None else Some (jsonCell v))"

definition truthyJson :: "json \<Rightarrow> bool" where
  "truthyJson j = (case j of JObject obj \<Rightarrow> True | JPrimitive v \<Rightarrow> truthy v)"

text \<open>A step that rejects with an error object, inside a function whose callers see any thrown value.\<close>

definition lift :: "(js_error, 'a, 'w) action \<Rightarrow> (js_error option, 'a, 'w) action" where
  "lift m w = (case m w of (Inl e, w') \<Rightarrow> (Inl (Some e), w') | (Inr v, w') \<Rightarrow> (Inr v, w'))"

subsection \<open>GoogleSheetsService.saveOnomatopoeia\<close>

definition saveOnomatopoeiaRow ::
  "googleSheetsService \<Rightarrow> string \<Rightarrow> string \<Rightarrow> jsobject \<Rightarrow>
     (js_error option, json, 'x world_scheme) action" where
  "saveOnomatopoeiaRow svc spreadsheetId sheetName onomatopoeiaData =
     (case transformObjectToRow onomatopoeiaData onomatopoeiaMapping of
        Inl e \<Rightarrow> throw (Some e)
      | Inr r \<Rightarrow> appendSheetData svc spreadsheetId sheetName (OneRow r))"

subsection \<open>SurveyApp.saveOnomatopoeia\<close>

text \<open>
  The upload of the recording, with its \<open>try\<close> and \<open>catch\<close>: the file name, or \<open>null\<close> when
  there is nothing to upload or the upload failed.
\<close>

definition uploadIfRecorded ::
  "jsobject \<Rightarrow> bool \<Rightarrow> 'x browser_scheme \<Rightarrow> jsval \<times> 'x browser_scheme" where
  "uploadIfRecorded infoDict verbose w =
     (if truthy (readProp infoDict ''audioBlob'') \<and>
         strictEquals (readProp infoDict ''hasAudio'') (Num 1) then
        (case uploadAudioFile
                [readProp infoDict ''audioBlob'', readProp infoDict ''participantId'',
                 readProp infoDict ''participantName'', readProp infoDict ''video'',
                 readProp infoDict ''movement'', readProp infoDict ''answeredTimestamp''] w of
           (Inr fileName, w1) \<Rightarrow> (fileName, w1)
         | (Inl audioError, w1) \<Rightarrow>
             (let w2 = emit (ConsoleError ''Audio upload failed:'') w1 in
              (Null, if verbose
                     then emit (ShowError (getText w2 ''survey.audio_upload_error'')) w2
                     else w2)))
      else (Null, w))"

definition onomatopoeiaDataOf :: "runtime \<Rightarrow> jsobject \<Rightarrow> jsval \<Rightarrow> jsobject" where
  "onomatopoeiaDataOf js infoDict audioFileName =
     [''participantId'' \<mapsto> parseInt js (readProp infoDict ''participantId''),
      ''participantName'' \<mapsto> readProp infoDict ''participantName'',
      ''video'' \<mapsto> readProp infoDict ''video'',
      ''movement'' \<mapsto> readProp infoDict ''movement'',
      ''startTime'' \<mapsto> parseFloat js (readProp infoDict ''startTime''),
      ''endTime'' \<mapsto> parseFloat js (readProp infoDict ''endTime''),
      ''answeredTimestamp'' \<mapsto> readProp infoDict ''answeredTimestamp'',
      ''hasAudio'' \<mapsto> orElse (readProp infoDict ''hasAudio'') (Num 0),
      ''audioFileName'' \<mapsto> orElse audioFileName (Str [])]"

text \<open>\<open>{...infoDict, hasAudio: infoDict.hasAudio || 0, audioFileName}\<close> without \<open>audioBlob\<close>.\<close>

definition updatedInfoDictOf :: "jsobject \<Rightarrow> jsval \<Rightarrow> jsobject" where
  "updatedInfoDictOf infoDict audioFileName =
     (infoDict(''hasAudio'' \<mapsto> orElse (readProp infoDict ''hasAudio'') (Num 0),
               ''audioFileName'' \<mapsto> audioFileName))(''audioBlob'' := None)"

text \<open>
  The array \<open>filteredData\<close> handed to the method is the page's own \<open>this.filteredData\<close> at
  both call sites, so the push goes to the field.
\<close>

definition pushLocal :: "jsobject \<Rightarrow> 'x surveyApp_scheme \<Rightarrow> 'x surveyApp_scheme" where
  "pushLocal updatedInfoDict app =
     (let app1 = app\<lparr>filteredData := filteredData app @ [updatedInfoDict]\<rparr> in
      app1\<lparr>localStorage :=
             (localStorage app1)(''filteredData'' \<mapsto> map jsonObjectOf (filteredData app1))\<rparr>)"

definition saveOnomatopoeia ::
  "runtime \<Rightarrow> googleSheetsService \<Rightarrow> jsobject \<Rightarrow> string \<Rightarrow> string \<Rightarrow> bool \<Rightarrow>
     (js_error option, unit, 'x surveyApp_scheme) action" where
  "saveOnomatopoeia js svc infoDict spreadsheetId sheetName verbose app =
     (case validateOnomatopoeiaData (getText app) infoDict of
        Inl e \<Rightarrow> (Inl (Some e), app)
      | Inr (Some invalid) \<Rightarrow>
          (Inl (Some (Error invalid)),
           if verbose then emit (ShowError invalid) app else app)
      | Inr None \<Rightarrow>
          (let (audioFileName, app1) = uploadIfRecorded infoDict verbose app in
           case saveOnomatopoeiaRow svc spreadsheetId sheetName
                  (onomatopoeiaDataOf js infoDict audioFileName) app1 of
             (Inl e, app2) \<Rightarrow> (Inl e, app2)
           | (Inr appendResult, app2) \<Rightarrow>
               if \<not> truthyJson appendResult then
                 (Inl (Some (Error ''Failed to save to sheet'')),
                  if verbose
                  then emit (ShowError (getText app2 ''survey.error_saving_sheet'')) app2
                  else app2)
               else
                 (let app3 = pushLocal (updatedInfoDictOf infoDict audioFileName) app2 in
                  (Inr (),
                   if verbose then
                     emit (ShowSuccess
                             (getText app3
                                (if strictEquals (readProp infoDict ''hasAudio'') (Num 1) \<and>
                                    truthy audioFileName
                                 then ''survey.success_saved_with_audio''
                                 else ''survey.success_saved''))) app3
                   else app3))))"

subsection \<open>SurveyApp.handleNoOnomatopoeia\<close>

definition noOnomatopoeiaInfo :: "'x surveyApp_scheme \<Rightarrow> jsobject" where
  "noOnomatopoeiaInfo app =
     [''participantId'' \<mapsto> readProp (participantInfo app) ''participantId'',
      ''participantName'' \<mapsto>
         orElse (readProp (participantInfo app) ''name'') (readProp (participantInfo app) ''email''),
      ''video'' \<mapsto> currentVideoName app,
      ''movement'' \<mapsto> Str ''null'',
      ''startTime'' \<mapsto> Str ''null'',
      ''endTime'' \<mapsto> Str ''null'',
      ''answeredTimestamp'' \<mapsto> obtainDate app,
      ''hasAudio'' \<mapsto> Num 0]"

definition resetDisplayForCurrentVideo :: "'x surveyApp_scheme \<Rightarrow> 'x surveyApp_scheme" where
  "resetDisplayForCurrentVideo app = emit ResetDisplay app"

text \<open>
  A click on the next video button makes the video manager change the video and call
  \<open>onVideoChange\<close>; after the last button the page only shows something.
\<close>

definition goToNextVideo :: "nat \<Rightarrow> 'x surveyApp_scheme \<Rightarrow> 'x surveyApp_scheme" where
  "goToNextVideo currentIndex app =
     (if currentIndex + 1 < length (videoNames app) then
        emit (VideoChanged (videoNames app ! (currentIndex + 1)))
          (app\<lparr>currentButton := Some (currentIndex + 1),
                currentVideoName := Str (videoNames app ! (currentIndex + 1))\<rparr>)
      else emit EndOfVideos app)"

definition currentVideoData :: "'x surveyApp_scheme \<Rightarrow> jsobject list" where
  "currentVideoData app =
     filter (\<lambda>item. strictEquals (readProp item ''video'') (currentVideoName app))
       (filteredData app)"

definition handleNoOnomatopoeia ::
  "runtime \<Rightarrow> googleSheetsService \<Rightarrow> 'x surveyApp_scheme \<Rightarrow> 'x surveyApp_scheme" where
  "handleNoOnomatopoeia js svc app0 =
     (let app = emit ClearMessage app0 in
      case currentButton app of
        None \<Rightarrow> app
      | Some button \<Rightarrow>
          (let (saved, app1) =
                 (if currentVideoData app = [] then
                    saveOnomatopoeia js svc (noOnomatopoeiaInfo app)
                      (configSpreadsheetId app) (configOnomatopoeiaSheet app) False app
                  else (Inr (), app))
           in case saved of
                Inl e \<Rightarrow> emit (ConsoleError ''Error saving \"no\" response:'') app1
              | Inr u \<Rightarrow> goToNextVideo button (resetDisplayForCurrentVideo app1)))"

subsection \<open>An example session\<close>

definition exampleBrowser :: browser where
  "exampleBrowser =
     world.extend upWorld
       \<lparr>uploadAt = (\<lambda>history args. Inl (Error ''no upload'')),
        clock = (\<lambda>history. ''2025-01-01T10:00:00Z''),
        getText = (\<lambda>key. key),
        localStorage = Map.empty\<rparr>"

definition exampleApp :: surveyApp where
  "exampleApp =
     browser.extend exampleBrowser
       \<lparr>filteredData = [],
        participantInfo = [''participantId'' \<mapsto> Str ''7'', ''name'' \<mapsto> Str ''Ann'',
                           ''email'' \<mapsto> Str ''a@b.com''],
        currentVideoName = Str ''1.mp4'',
        videoNames = [''1.mp4'', ''2.mp4''],
        currentButton = Some 0,
        configSpreadsheetId = ''sheet-id'',
        configOnomatopoeiaSheet = ''Onomatopoeia''\<rparr>"

definition swooshInfo :: jsobject where
  "swooshInfo =
     [''participantId'' \<mapsto> Str ''7'', ''participantName'' \<mapsto> Str ''Ann'',
      ''video'' \<mapsto> Str ''1.mp4'', ''movement'' \<mapsto> Str ''swoosh'',
      ''startTime'' \<mapsto> Str ''1.20'', ''endTime'' \<mapsto> Str ''2.40'',
      ''answeredTimestamp'' \<mapsto> Str ''2025-01-01T10:00:00Z'', ''hasAudio'' \<mapsto> Num 0,
      ''audioBlob'' \<mapsto> Null]"

text \<open>The rows that the requests of a trace carry, in order.\<close>

definition sentRows :: "event list \<Rightarrow> row list" where
  "sentRows es =
     concat (map (\<lambda>e. case e of
                        Fetch req \<Rightarrow> (case body req of ValuesBody rows \<Rightarrow> rows | _ \<Rightarrow> [])
                      | _ \<Rightarrow> []) es)"

text \<open>
  The row that \<open>transformObjectToRow\<close> makes of the record for the store, written out (the
  last column, \<open>emotion\<close>, is never set), and a relation between the trace before and after
  a step: events were only added, and every request among them is a POST.
\<close>

definition onomatopoeiaRow :: "runtime \<Rightarrow> jsobject \<Rightarrow> jsval \<Rightarrow> row" where
  "onomatopoeiaRow js infoDict audioFileName =
     [parseInt js (readProp infoDict ''participantId''),
      readProp infoDict ''participantName'',
      readProp infoDict ''video'',
      readProp infoDict ''movement'',
      parseFloat js (readProp infoDict ''startTime''),
      parseFloat js (readProp infoDict ''endTime''),
      readProp infoDict ''answeredTimestamp'',
      orElse (readProp infoDict ''hasAudio'') (Num 0),
      orElse audioFileName (Str []),
      Undefined]"

definition sendsOnlyPosts :: "event list \<Rightarrow> event list \<Rightarrow> bool" where
  "sendsOnlyPosts before after =
     (\<exists>added. after = before @ added \<and>
        (\<forall>req. Fetch req \<in> set added \<longrightarrow> httpMethod req = ''POST''))"

section \<open>Properties of the step sequencer\<close>

lemmas sequencer_eval =
  goToStep_def newSequencer_def resetValidation_def initialValidation_def
  markActionCompleted_def getStepConfig_def stepConfigs_def mkConfig_def emptyConfig_def Let_def
  advance_def canAdvance_def getRequiredActionMessage_def requiredActionMessages_def
  resetStepSpecificValidation_def goBack_def atStep_def

lemma required_has_message:
  "required (getStepConfig n) \<Longrightarrow> \<exists>msg. requiredActionMessages n = Some msg"
  by (auto simp: getStepConfig_def stepConfigs_def requiredActionMessages_def mkConfig_def
        emptyConfig_def split: if_splits)

lemma canAdvance_pending:
  "required (getStepConfig (currentStep s)) \<Longrightarrow>
   validation (getStepConfig (currentStep s)) = Some k \<Longrightarrow>
   stepValidation s k = Some False \<Longrightarrow> \<not> canAdvance s"
  by (simp add: canAdvance_def)

lemma canAdvance_done:
  "validation (getStepConfig (currentStep s)) = Some k \<Longrightarrow>
   stepValidation s k = Some True \<Longrightarrow> canAdvance s"
  by (simp add: canAdvance_def)

lemma markActionCompleted_tracked:
  assumes "a \<in> dom (stepValidation s)"
  shows "markActionCompleted a None onAuto s =
      (let s1 = s\<lparr>stepValidation := (stepValidation s)(a \<mapsto> True)\<rparr> in
       if autoAdvance (getStepConfig (currentStep s)) \<and>
          validation (getStepConfig (currentStep s)) = Some a
       then (case onAuto of Some cb \<Rightarrow> cb (currentStep s, a) s1 | None \<Rightarrow> s1) else s1)"
  using assms by (cases onAuto) (simp_all add: markActionCompleted_def Let_def)

text \<open>
  C2, as stated, fails: at step 2 (\<open>autoAdvance\<close> true, validation key \<open>video_played\<close>) a call
  \<open>markActionCompleted('video_played')\<close> with the default \<open>null\<close> callbacks sets the flag and
  leaves \<open>currentStep\<close> at 2. The method never calls \<open>advance()\<close>.
\<close>

theorem markActionCompleted_alone_does_not_advance:
  "autoAdvance (getStepConfig (currentStep (atStep 2))) \<and>
   validation (getStepConfig (currentStep (atStep 2))) = Some ''video_played'' \<and>
   stepValidation (markActionCompleted ''video_played'' None None (atStep 2)) ''video_played''
     = Some True \<and>
   currentStep (atStep 2) = 2 \<and>
   currentStep (markActionCompleted ''video_played'' None None (atStep 2)) = 2"
  by (simp add: sequencer_eval)

text \<open>
  C2, amended: when the current step has \<open>autoAdvance\<close> true and validation key \<open>a\<close> (a tracked
  key), \<open>markActionCompleted(a)\<close> sets the flag of \<open>a\<close> and hands control to the caller's
  \<open>onAutoAdvance\<close> callback, called once with the current step and \<open>a\<close> on the state that has
  the flag set. With no callback \<open>currentStep\<close> is unchanged. When the callback calls
  \<open>advance()\<close>, as the tutorial page's does, \<open>currentStep\<close> increases by one if it is below
  \<open>totalSteps\<close> and stays otherwise.
\<close>

theorem markActionCompleted_hands_over_to_onAutoAdvance:
  assumes auto: "autoAdvance (getStepConfig (currentStep s))"
      and key: "validation (getStepConfig (currentStep s)) = Some a"
      and tracked: "a \<in> dom (stepValidation s)"
  shows "markActionCompleted a None None s =
           s\<lparr>stepValidation := (stepValidation s)(a \<mapsto> True)\<rparr> \<and>
         markActionCompleted a None (Some cb) s =
           cb (currentStep s, a) (s\<lparr>stepValidation := (stepValidation s)(a \<mapsto> True)\<rparr>) \<and>
         markActionCompleted a None (Some (\<lambda>_ t. snd (advance None None t))) s =
           s\<lparr>currentStep :=
                (if currentStep s < totalSteps s then currentStep s + 1 else currentStep s),
              stepValidation := (stepValidation s)(a \<mapsto> True)\<rparr>"
proof -
  let ?s1 = "s\<lparr>stepValidation := (stepValidation s)(a \<mapsto> True)\<rparr>"
  have m1: "markActionCompleted a None None s = ?s1"
    using markActionCompleted_tracked [OF tracked, of None] auto key by (simp add: Let_def)
  have m2: "\<And>f. markActionCompleted a None (Some f) s = f (currentStep s, a) ?s1"
    using markActionCompleted_tracked [OF tracked] auto key by (simp add: Let_def)
  have can: "canAdvance ?s1"
    by (rule canAdvance_done [where k = a]) (simp_all add: key)
  have adv: "snd (advance None None ?s1) =
      s\<lparr>currentStep :=
           (if currentStep s < totalSteps s then currentStep s + 1 else currentStep s),
         stepValidation := (stepValidation s)(a \<mapsto> True)\<rparr>"
    using can by (simp add: advance_def resetStepSpecificValidation_def)
  show ?thesis
    using m1 m2 [of cb] m2 [of "\<lambda>_ t. snd (advance None None t)"] adv by simp
qed

theorem markActionCompleted_hands_over_witness:
  "markActionCompleted ''video_played'' None (Some (\<lambda>_ t. snd (advance None None t))) (atStep 2) =
     (atStep 2)\<lparr>currentStep := 3,
       stepValidation := (stepValidation (atStep 2))(''video_played'' \<mapsto> True)\<rparr>"
proof -
  have 1: "autoAdvance (getStepConfig (currentStep (atStep 2)))"
    by (simp add: sequencer_eval)
  have 2: "validation (getStepConfig (currentStep (atStep 2))) = Some ''video_played''"
    by (simp add: sequencer_eval)
  have 3: "''video_played'' \<in> dom (stepValidation (atStep 2))"
    by (simp add: sequencer_eval)
  have 4: "currentStep (atStep 2) = 2" "totalSteps (atStep 2) = 10"
    by (simp_all add: sequencer_eval)
  show ?thesis
    using markActionCompleted_hands_over_to_onAutoAdvance [OF 1 2 3, of "\<lambda>_ t. t"] 4 by simp
qed

text \<open>
  The tutorial page passes \<open>nextStep\<close> as the callback, so on the page marking the action of
  an auto-advance step does move one step on (below the last step).
\<close>

lemma nextStep_currentStep:
  "currentStep (nextStep app) =
     (if canAdvance app \<and> currentStep app < totalSteps app
      then currentStep app + 1 else currentStep app)"
  by (auto simp: nextStep_def advance_def Let_def logUi_def completeTutorial_def
        showTutorialStep_def updateProgress_def resetStepSpecificValidation_def
        split: option.splits prod.splits)

lemma checkStepValidation_advances:
  assumes auto: "autoAdvance (getStepConfig (currentStep app))"
      and key: "validation (getStepConfig (currentStep app)) = Some a"
      and tracked: "a \<in> dom (stepValidation app)"
  shows "currentStep (checkStepValidation a app) =
           (if currentStep app < totalSteps app then currentStep app + 1 else currentStep app)"
proof -
  let ?s2 = "updateNextButtonState (app\<lparr>stepValidation := (stepValidation app)(a \<mapsto> True)\<rparr>)"
  have s2: "currentStep ?s2 = currentStep app" "totalSteps ?s2 = totalSteps app"
       "stepValidation ?s2 = (stepValidation app)(a \<mapsto> True)"
    by (simp_all add: updateNextButtonState_def logUi_def)
  have eq: "checkStepValidation a app = nextStep ?s2"
    using tracked auto key unfolding checkStepValidation_def markActionCompleted_def
    by (simp add: Let_def s2)
  have can: "canAdvance ?s2"
    by (rule canAdvance_done [where k = a]) (simp_all add: s2 key)
  show ?thesis by (simp add: eq nextStep_currentStep can s2)
qed

text \<open>
  C3: at a step whose configuration is \<open>required\<close> with a validation key \<open>k\<close> whose flag is
  unset, \<open>advance()\<close> returns false, leaves the state as it is and calls the required-action
  callback once with the message of the step (with no callback nothing happens at all). After
  \<open>markActionCompleted(k)\<close> the same call increments \<open>currentStep\<close> by one, unless the step
  is already \<open>totalSteps\<close>, where it stays.
\<close>

theorem advance_required_gate:
  assumes req: "required (getStepConfig (currentStep s))"
      and key: "validation (getStepConfig (currentStep s)) = Some k"
      and unset: "stepValidation s k = Some False"
  shows "(\<exists>msg. requiredActionMessages (currentStep s) = Some msg \<and>
            advance onAdvance (Some cb) s = (False, cb msg s)) \<and>
         advance onAdvance None s = (False, s) \<and>
         advance None None (markActionCompleted k None None s) =
           (if currentStep s < totalSteps s
            then (True, s\<lparr>currentStep := currentStep s + 1,
                          stepValidation := (stepValidation s)(k \<mapsto> True)\<rparr>)
            else (False, s\<lparr>stepValidation := (stepValidation s)(k \<mapsto> True)\<rparr>))"
proof -
  obtain msg where msg: "requiredActionMessages (currentStep s) = Some msg"
    using required_has_message [OF req] by blast
  have no: "\<not> canAdvance s"
    using canAdvance_pending [OF req key unset] .
  have a1: "advance onAdvance (Some cb) s = (False, cb msg s)"
    using no msg by (simp add: advance_def getRequiredActionMessage_def)
  have a2: "advance onAdvance None s = (False, s)"
    using no by (simp add: advance_def)
  have dom: "k \<in> dom (stepValidation s)"
    using unset by auto
  let ?m = "markActionCompleted k None None s"
  have m: "?m = s\<lparr>stepValidation := (stepValidation s)(k \<mapsto> True)\<rparr>"
    using dom by (simp add: markActionCompleted_def Let_def)
  have can: "canAdvance ?m"
    by (rule canAdvance_done [where k = k]) (simp_all add: m key)
  have a3: "advance None None ?m =
           (if currentStep s < totalSteps s
            then (True, s\<lparr>currentStep := currentStep s + 1,
                          stepValidation := (stepValidation s)(k \<mapsto> True)\<rparr>)
            else (False, s\<lparr>stepValidation := (stepValidation s)(k \<mapsto> True)\<rparr>))"
    using can unfolding advance_def by (simp add: m resetStepSpecificValidation_def)
  show ?thesis using msg a1 a2 a3 by blast
qed

text \<open>
  The instance of the specification: step 4 is \<open>{required: true, validation: 'clicked_yes'}\<close>;
  before the action is marked \<open>advance()\<close> is refused at step 4, after it the step is 5.
\<close>

theorem advance_required_gate_witness:
  "getStepConfig 4 = mkConfig ''action'' True True (Some ''clicked_yes'') \<and>
   currentStep (atStep 4) = 4 \<and>
   advance None None (atStep 4) = (False, atStep 4) \<and>
   fst (advance None None (markActionCompleted ''clicked_yes'' None None (atStep 4))) \<and>
   currentStep (snd (advance None None (markActionCompleted ''clicked_yes'' None None (atStep 4))))
     = 5"
proof -
  have 1: "required (getStepConfig (currentStep (atStep 4)))"
    by (simp add: sequencer_eval)
  have 2: "validation (getStepConfig (currentStep (atStep 4))) = Some ''clicked_yes''"
    by (simp add: sequencer_eval)
  have 3: "stepValidation (atStep 4) ''clicked_yes'' = Some False"
    by (simp add: sequencer_eval)
  have 4: "currentStep (atStep 4) = 4" "totalSteps (atStep 4) = 10"
    by (simp_all add: sequencer_eval)
  have 5: "getStepConfig 4 = mkConfig ''action'' True True (Some ''clicked_yes'')"
    by (simp add: getStepConfig_def stepConfigs_def)
  show ?thesis
    using advance_required_gate [OF 1 2 3, of None "\<lambda>_ t. t"] 4 5 by simp
qed

text \<open>
  C9, as stated, fails: clearing is not reserved to a fresh instance. \<open>resetValidation()\<close>
  is a method of the manager (the tutorial page calls it on its one instance in
  \<open>initializeTutorial\<close>) and sets every flag back to false.
\<close>

theorem resetValidation_clears_flag:
  "stepValidation (markActionCompleted ''video_played'' None None (newSequencer 10))
     ''video_played'' = Some True \<and>
   stepValidation
     (resetValidation (markActionCompleted ''video_played'' None None (newSequencer 10)))
     ''video_played'' = Some False"
  by (simp add: sequencer_eval)

text \<open>
  C9, amended: \<open>advance()\<close>, \<open>goBack()\<close> and \<open>goToStep()\<close> leave the validation flags exactly as
  they were (for callbacks that do not write the flags themselves), and
  \<open>markActionCompleted()\<close> never clears a flag that is set. Flags are cleared by
  \<open>resetValidation()\<close> and can be overwritten by \<open>importState()\<close>, on the same instance.
\<close>

theorem transitions_keep_flags:
  assumes "keepsFlags onAdvance" "keepsFlags onRequiredAction"
          "keepsFlags onGoBack" "keepsFlags onStepChange"
  shows "stepValidation (snd (advance onAdvance onRequiredAction s)) = stepValidation s \<and>
         stepValidation (snd (goBack onGoBack s)) = stepValidation s \<and>
         stepValidation (snd (goToStep k onStepChange s)) = stepValidation s \<and>
         (stepValidation s f = Some True \<longrightarrow>
            stepValidation (markActionCompleted a None None s) f = Some True)"
  using assms
  by (auto simp: keepsFlags_def advance_def goBack_def goToStep_def markActionCompleted_def
        Let_def resetStepSpecificValidation_def split: option.splits)

theorem transitions_keep_flags_witness:
  "stepValidation (snd (advance (Some (\<lambda>n t. t)) None (atStep 1))) = stepValidation (atStep 1) \<and>
   stepValidation (snd (goBack None (atStep 3))) = stepValidation (atStep 3) \<and>
   stepValidation (snd (goToStep 7 None (atStep 3))) = stepValidation (atStep 3)"
proof -
  have k: "keepsFlags (Some (\<lambda>(n::int) (t::sequencer). t))"
          "keepsFlags (None :: (string, unit) callback)"
          "keepsFlags (None :: (int, unit) callback)"
    by (simp_all add: keepsFlags_def)
  show ?thesis
    using transitions_keep_flags [OF k(1) k(2) k(3) k(3), of "atStep 1"]
          transitions_keep_flags [OF k(1) k(2) k(3) k(3), of "atStep 3" 7]
    by simp
qed

text \<open>
  The rest of the amended C9: \<open>markActionCompleted()\<close> keeps a set flag with any callbacks
  that leave the flags alone, and \<open>importState()\<close> overwrites a set flag with the imported
  one.
\<close>

lemma markActionCompleted_keeps_set_flags:
  assumes "keepsFlags onValidationChange" "keepsFlags onAutoAdvance"
      and "stepValidation s f = Some True"
  shows "stepValidation (markActionCompleted a onValidationChange onAutoAdvance s) f =
           Some True"
  using assms
  by (auto simp: keepsFlags_def markActionCompleted_def Let_def split: option.splits)

lemma importState_overwrites_flag:
  "stepValidation (markActionCompleted ''video_played'' None None (newSequencer 10))
     ''video_played'' = Some True \<and>
   stepValidation
     (importState
        \<lparr>exCurrentStep = None, exStepValidation = Some [''video_played'' \<mapsto> False],
         exTotalSteps = None\<rparr>
        (markActionCompleted ''video_played'' None None (newSequencer 10)))
     ''video_played'' = Some False"
  by (simp add: sequencer_eval importState_def truthyNumber_def)

text \<open>
  C10: the range \<open>1 \<le> currentStep \<le> totalSteps\<close> is kept by \<open>advance\<close>, \<open>goBack\<close> and
  \<open>goToStep\<close>, but not by \<open>importState\<close>: it clamps the imported step against the
  \<open>totalSteps\<close> the manager had before the call and only then overwrites \<open>totalSteps\<close> with the
  imported one. Importing \<open>{currentStep: 8, totalSteps: 5}\<close> into a fresh manager of 10 steps
  leaves \<open>currentStep = 8\<close> with \<open>totalSteps = 5\<close>.
\<close>

theorem importState_leaves_range:
  "inRange (newSequencer 10) \<and>
   currentStep (importState
      \<lparr>exCurrentStep = Some 8, exStepValidation = None, exTotalSteps = Some 5\<rparr>
      (newSequencer 10)) = 8 \<and>
   totalSteps (importState
      \<lparr>exCurrentStep = Some 8, exStepValidation = None, exTotalSteps = Some 5\<rparr>
      (newSequencer 10)) = 5 \<and>
   \<not> inRange (importState
      \<lparr>exCurrentStep = Some 8, exStepValidation = None, exTotalSteps = Some 5\<rparr>
      (newSequencer 10))"
  by (simp add: inRange_def importState_def truthyNumber_def newSequencer_def
        resetValidation_def Let_def)

lemma advance_inRange: "inRange s \<Longrightarrow> inRange (snd (advance None None s))"
  by (simp add: inRange_def advance_def resetStepSpecificValidation_def)

lemma goBack_inRange: "inRange s \<Longrightarrow> inRange (snd (goBack None s))"
  by (simp add: inRange_def goBack_def resetStepSpecificValidation_def)

lemma goToStep_inRange: "inRange s \<Longrightarrow> inRange (snd (goToStep k None s))"
  by (simp add: inRange_def goToStep_def)

lemma goToStep_refuses:
  "\<not> (1 \<le> k \<and> k \<le> totalSteps s) \<Longrightarrow> goToStep k cb s = (False, s)"
  by (auto simp add: goToStep_def)

lemma importState_clamps_to_old_total:
  "1 \<le> totalSteps s \<Longrightarrow> exCurrentStep st = Some c \<Longrightarrow> c \<noteq> 0 \<Longrightarrow>
     1 \<le> currentStep (importState st s) \<and> currentStep (importState st s) \<le> totalSteps s"
  by (simp add: importState_def truthyNumber_def Let_def split: option.splits)

section \<open>Properties of the row finder\<close>

lemma findRowsFrom_eq:
  "findRowsFrom js rows crit i results =
     results @ map (\<lambda>j. \<lparr>rowIndex = j, data = rows ! j\<rparr>)
                  (filter (\<lambda>j. rowMatches js (rows ! j) j crit) [i ..< length rows])"
proof (induction js rows crit i results rule: findRowsFrom.induct)
  case (1 js rows crit i results)
  show ?case
  proof (cases "i < length rows")
    case True
    then have up: "[i ..< length rows] = i # [i + 1 ..< length rows]"
      by (simp add: upt_conv_Cons)
    show ?thesis
      using True "1.IH" [OF True]
      by (subst findRowsFrom.simps) (simp add: up)
  next
    case False
    then show ?thesis by (subst findRowsFrom.simps) simp
  qed
qed

lemma findRows_eq:
  "findRows js (Some rows) crit =
     map (\<lambda>j. \<lparr>rowIndex = j, data = rows ! j\<rparr>)
         (filter (\<lambda>j. rowMatches js (rows ! j) j crit) [1 ..< length rows])"
  by (simp add: findRows_def findRowsFrom_eq)

lemma rowMatches_all: "rowMatches js r i crit = list_all (criterionHolds js r i) crit"
  by (induction crit) auto

lemma findRows_indices_increase:
  "sorted_wrt (<) (map rowIndex (findRows js (Some rows) crit))"
proof -
  have "map rowIndex (findRows js (Some rows) crit) =
          filter (\<lambda>j. rowMatches js (rows ! j) j crit) [1 ..< length rows]"
    by (simp add: findRows_eq comp_def)
  moreover have
    "sorted_wrt (<) (filter (\<lambda>j. rowMatches js (rows ! j) j crit) [1 ..< length rows])"
    by (rule sorted_wrt_filter) simp
  ultimately show ?thesis by simp
qed

text \<open>
  C8: \<open>findRows\<close> returns nothing for a missing table; otherwise it returns, for the row
  indices from 1 on in increasing order, exactly the rows that satisfy every criterion, each
  with its index, so index 0 (the header) is never returned whatever its cells are. A
  literal criterion that is a string is compared with a string cell through
  \<open>toLowerCase\<close> on both sides; every other pair of literal and cell is compared with
  \<open>==\<close>; a function criterion is applied to the cell, the row and the index. \<open>findRow\<close> is
  the first result or \<open>null\<close>. For a table \<open>[header, rowA, rowB]\<close> and the criterion
  \<open>{0: rowA[0]}\<close>, when \<open>rowB\<close> does not match (and \<open>rowA[0]\<close> is a string or
  \<open>rowA[0] == rowA[0]\<close>, which holds of every value but \<open>NaN\<close>), the result is the one match
  \<open>{rowIndex: 1, data: rowA}\<close>.
\<close>

theorem findRows_skips_header_in_row_order:
  "findRows js None crit = [] \<and>
   findRows js (Some rows) crit =
     map (\<lambda>j. \<lparr>rowIndex = j, data = rows ! j\<rparr>)
       (filter (\<lambda>j. rowMatches js (rows ! j) j crit) [1 ..< length rows]) \<and>
   (\<forall>m \<in> set (findRows js (Some rows) crit). rowIndex m \<noteq> 0) \<and>
   sorted_wrt (<) (map rowIndex (findRows js (Some rows) crit)) \<and>
   rowMatches js r i crit = (\<forall>c \<in> set crit. criterionHolds js r i c) \<and>
   (criterionHolds js r i (col, Literal (Str e)) =
      (case cellAt r col of
         Str a \<Rightarrow> toLowerCase js a = toLowerCase js e
       | v \<Rightarrow> looseEquals js v (Str e))) \<and>
   ((\<forall>s. e' \<noteq> Str s) \<longrightarrow>
      criterionHolds js r i (col, Literal e') = looseEquals js (cellAt r col) e') \<and>
   criterionHolds js r i (col, Predicate p) = p (cellAt r col) r i \<and>
   findRow js table crit = (case findRows js table crit of [] \<Rightarrow> None | m # _ \<Rightarrow> Some m) \<and>
   ((\<exists>s. cellAt rowA 0 = Str s) \<or> looseEquals js (cellAt rowA 0) (cellAt rowA 0) \<longrightarrow>
    \<not> rowMatches js rowB 2 [(0, Literal (cellAt rowA 0))] \<longrightarrow>
    findRows js (Some [header, rowA, rowB]) [(0, Literal (cellAt rowA 0))] =
      [\<lparr>rowIndex = 1, data = rowA\<rparr>])"
proof -
  have a: "findRows js None crit = []"
    by (simp add: findRows_def)
  have c: "\<forall>m \<in> set (findRows js (Some rows) crit). rowIndex m \<noteq> 0"
    by (auto simp: findRows_eq)
  have e: "rowMatches js r i crit = (\<forall>c \<in> set crit. criterionHolds js r i c)"
    by (simp add: rowMatches_all list_all_iff)
  have f: "criterionHolds js r i (col, Literal (Str e)) =
        (case cellAt r col of
           Str a \<Rightarrow> toLowerCase js a = toLowerCase js e
         | v \<Rightarrow> looseEquals js v (Str e))"
    by (simp add: criterionHolds_def split: jsval.splits)
  have g: "(\<forall>s. e' \<noteq> Str s) \<longrightarrow>
      criterionHolds js r i (col, Literal e') = looseEquals js (cellAt r col) e'"
    by (cases e') (simp_all add: criterionHolds_def)
  have h: "criterionHolds js r i (col, Predicate p) = p (cellAt r col) r i"
    by (simp add: criterionHolds_def)
  have k: "findRow js table crit =
             (case findRows js table crit of [] \<Rightarrow> None | m # _ \<Rightarrow> Some m)"
    by (simp add: findRow_def Let_def split: list.splits)
  have self: "(\<exists>s. cellAt rowA 0 = Str s) \<or>
              looseEquals js (cellAt rowA 0) (cellAt rowA 0) \<Longrightarrow>
                criterionHolds js rowA 1 (0, Literal (cellAt rowA 0))"
    by (cases "cellAt rowA 0") (auto simp: criterionHolds_def)
  have up: "[1 ..< 3] = [1, 2::nat]"
    by (simp add: upt_conv_Cons)
  have l: "(\<exists>s. cellAt rowA 0 = Str s) \<or>
           looseEquals js (cellAt rowA 0) (cellAt rowA 0) \<longrightarrow>
      \<not> rowMatches js rowB 2 [(0, Literal (cellAt rowA 0))] \<longrightarrow>
      findRows js (Some [header, rowA, rowB]) [(0, Literal (cellAt rowA 0))] =
        [\<lparr>rowIndex = 1, data = rowA\<rparr>]"
    using self by (simp add: findRows_eq up eval_nat_numeral)
  show ?thesis
    using a findRows_eq c findRows_indices_increase e f g h k l by blast
qed

text \<open>
  An instance: the header holds the very text that is looked for, in another case, and is
  skipped all the same; the second row matches without regard to case.
\<close>

theorem findRows_skips_header_witness:
  "findRows exampleRuntime
     (Some [[Str ''Alice'', Str ''id''], [Str ''ALICE'', Num 1], [Str ''Bob'', Num 2]])
     [(0, Literal (cellAt [Str ''ALICE'', Num 1] 0))] =
   [\<lparr>rowIndex = 1, data = [Str ''ALICE'', Num 1]\<rparr>]"
proof -
  have 1: "\<exists>s. cellAt [Str ''ALICE'', Num 1] 0 = Str s"
    by (simp add: cellAt_def)
  have 2: "\<not> rowMatches exampleRuntime [Str ''Bob'', Num 2] 2
               [(0, Literal (cellAt [Str ''ALICE'', Num 1] 0))]"
    by (simp add: exampleRuntime_def cellAt_def criterionHolds_def lowerChar_def)
  have "(\<exists>s. cellAt [Str ''ALICE'', Num 1] 0 = Str s) \<or>
        looseEquals exampleRuntime (cellAt [Str ''ALICE'', Num 1] 0)
             (cellAt [Str ''ALICE'', Num 1] 0) \<longrightarrow>
        \<not> rowMatches exampleRuntime [Str ''Bob'', Num 2] 2
               [(0, Literal (cellAt [Str ''ALICE'', Num 1] 0))] \<longrightarrow>
        findRows exampleRuntime
          (Some [[Str ''Alice'', Str ''id''], [Str ''ALICE'', Num 1], [Str ''Bob'', Num 2]])
          [(0, Literal (cellAt [Str ''ALICE'', Num 1] 0))] =
        [\<lparr>rowIndex = 1, data = [Str ''ALICE'', Num 1]\<rparr>]"
    using findRows_skips_header_in_row_order
            [where js = exampleRuntime and rowA = "[Str ''ALICE'', Num 1]"
               and rowB = "[Str ''Bob'', Num 2]" and header = "[Str ''Alice'', Str ''id'']"]
    by blast
  then show ?thesis using 1 2 by blast
qed

section \<open>Properties of the row mapper\<close>







text \<open>
  What the two conditions on the mapping are for. With no column at all \<open>Math.max()\<close> is
  \<open>-Infinity\<close> and no array of that length exists. With two fields on one column both
  cells are written to the same position, the later entry wins, and both keys read it
  back: for \<open>{a: 0, b: 0}\<close> and \<open>{a: 1, b: 2}\<close> the row is \<open>[2]\<close> and \<open>a\<close> comes back as 2.
  Neither is a row mapping of the program, whose two tables have one column per field.
\<close>

lemma transformObjectToRow_no_column:
  "transformObjectToRow obj [] = Inl (RangeError ''Invalid array length'')"
  by (simp add: transformObjectToRow_def)

lemma transformObjectToRow_shared_column:
  "transformObjectToRow duplicateIndexObject duplicateIndexMapping = Inr [Num 2] \<and>
   readProp (transformRowToObject [Num 2] duplicateIndexMapping) ''a'' = Num 2 \<and>
   readProp duplicateIndexObject ''a'' = Num 1"
  by (simp add: transformObjectToRow_def duplicateIndexObject_def duplicateIndexMapping_def
        transformRowToObject_def readProp_def cellAt_def)

lemma program_mappings_are_row_mappings:
  "participantMapping \<noteq> [] \<and> distinct (map snd participantMapping) \<and>
   onomatopoeiaMapping \<noteq> [] \<and> distinct (map snd onomatopoeiaMapping)"
  by (simp add: participantMapping_def onomatopoeiaMapping_def)

section \<open>Properties of the bubble positioner\<close>

text \<open>
  The loop over a list of candidates made from a list of names: it returns the candidate of
  the first name whose candidate fits, and nothing when none fits.
\<close>

lemma firstFitting_map_Some:
  "firstFitting ar (map f ps) b vw vh pad = Some r \<Longrightarrow>
     \<exists>before p after. ps = before @ p # after \<and> r = f p \<and>
        (\<forall>q \<in> set before. \<not> (fitsHorizontally ar (f q) b vw pad \<and>
                                fitsVertically ar (f q) b vh pad)) \<and>
        fitsHorizontally ar (f p) b vw pad \<and> fitsVertically ar (f p) b vh pad"
proof (induction ps)
  case Nil
  then show ?case by simp
next
  case (Cons p ps)
  show ?case
  proof (cases "fitsHorizontally ar (f p) b vw pad \<and> fitsVertically ar (f p) b vh pad")
    case True
    then have "r = f p"
      using Cons.prems by simp
    then show ?thesis
      using True by (intro exI [of _ "[]"] exI [of _ p] exI [of _ ps]) simp
  next
    case False
    then have "firstFitting ar (map f ps) b vw vh pad = Some r"
      using Cons.prems by (auto split: if_splits)
    from Cons.IH [OF this] obtain before q after where
      "ps = before @ q # after" "r = f q"
      "\<forall>q \<in> set before. \<not> (fitsHorizontally ar (f q) b vw pad \<and>
                              fitsVertically ar (f q) b vh pad)"
      "fitsHorizontally ar (f q) b vw pad \<and> fitsVertically ar (f q) b vh pad"
      by blast
    then show ?thesis
      using False by (intro exI [of _ "p # before"] exI [of _ q] exI [of _ after]) simp
  qed
qed

lemma firstFitting_None:
  "(firstFitting ar cs b vw vh pad = None) =
     (\<forall>c \<in> set cs. \<not> (fitsHorizontally ar c b vw pad \<and> fitsVertically ar c b vh pad))"
  by (induction cs) auto

text \<open>When every preference is one of the four names, the candidates are one per preference.\<close>

lemma strategies_of_known_names:
  "set preferences \<subseteq> placementNames \<Longrightarrow>
   generatePositionStrategies ar t b off preferences =
     map (\<lambda>pref. the (strategyNamed ar t b off pref)) preferences"
  by (induction preferences)
     (auto simp: generatePositionStrategies_def placementNames_def strategyNamed_def)

text \<open>
  C5: for every target rectangle, bubble rectangle, viewport size, padding and non-empty
  preference order over the four placements \<open>right\<close>, \<open>left\<close>, \<open>below\<close>, \<open>above\<close>, and whatever
  the arithmetic of the numbers is:

  \<^item> the candidates are one per preference, in the order of the preferences, each placed
    against the target rectangle as its name says (to the right of the target's right edge,
    to the left of its left edge, under its bottom edge, over its top edge, by the offset,
    and centred on the target along the other axis);

  \<^item> the positioner returns a placement and never throws;

  \<^item> if some candidate fits, that is, it has \<open>padding \<le> left\<close>,
    \<open>left + width \<le> viewportWidth - padding\<close>, \<open>padding \<le> top\<close> and
    \<open>top + height \<le> viewportHeight - padding\<close>, the result is the candidate of the first
    preference whose candidate fits;

  \<^item> if none fits (a bubble larger than the viewport included), the result is the candidate
    of the first preference with each coordinate clamped by
    \<open>max(padding, min(coordinate, viewport - size - padding))\<close>. It is never below
    \<open>padding\<close>, so never below a number that \<open>padding\<close> is not below (zero, for a padding
    that is not negative), never above the larger of \<open>padding\<close> and
    \<open>viewport - size - padding\<close>, and it is \<open>padding\<close> itself on an axis on which the bubble
    leaves no room, \<open>viewport - size - padding \<le> padding\<close>.
\<close>

theorem findBestPosition_first_fit_or_clamped:
  fixes ar :: "('n::linorder) arithmetic"
  assumes nonempty: "preferences \<noteq> []"
      and names: "set preferences \<subseteq> placementNames"
  shows
    "let candidate = (\<lambda>pref.
           if pref = ''right'' then
             \<lparr>posLeft = addNum ar (rectRight targetRect) offset,
              posTop = subNum ar (addNum ar (rectTop targetRect)
                                     (halfNum ar (rectHeight targetRect)))
                         (halfNum ar (rectHeight bubbleRect)),
              arrow = ''arrow-left''\<rparr>
           else if pref = ''left'' then
             \<lparr>posLeft = subNum ar (subNum ar (rectLeft targetRect) (rectWidth bubbleRect))
                          offset,
              posTop = subNum ar (addNum ar (rectTop targetRect)
                                     (halfNum ar (rectHeight targetRect)))
                         (halfNum ar (rectHeight bubbleRect)),
              arrow = ''arrow-right''\<rparr>
           else if pref = ''below'' then
             \<lparr>posLeft = subNum ar (addNum ar (rectLeft targetRect)
                                      (halfNum ar (rectWidth targetRect)))
                          (halfNum ar (rectWidth bubbleRect)),
              posTop = addNum ar (rectBottom targetRect) offset,
              arrow = ''arrow-top''\<rparr>
           else
             \<lparr>posLeft = subNum ar (addNum ar (rectLeft targetRect)
                                      (halfNum ar (rectWidth targetRect)))
                          (halfNum ar (rectWidth bubbleRect)),
              posTop = subNum ar (subNum ar (rectTop targetRect) (rectHeight bubbleRect))
                         offset,
              arrow = ''arrow-bottom''\<rparr>);
         fits = (\<lambda>c.
           padding \<le> posLeft c \<and>
           addNum ar (posLeft c) (rectWidth bubbleRect) \<le> subNum ar vw padding \<and>
           padding \<le> posTop c \<and>
           addNum ar (posTop c) (rectHeight bubbleRect) \<le> subNum ar vh padding);
         roomLeft = subNum ar (subNum ar vw (rectWidth bubbleRect)) padding;
         roomTop = subNum ar (subNum ar vh (rectHeight bubbleRect)) padding
     in
       generatePositionStrategies ar targetRect bubbleRect offset preferences =
         map candidate preferences \<and>
       (\<exists>result.
          findBestPosition ar
            (generatePositionStrategies ar targetRect bubbleRect offset preferences)
            bubbleRect vw vh padding = Inr result \<and>
          (if \<exists>pref \<in> set preferences. fits (candidate pref)
           then \<exists>before pref after.
                  preferences = before @ pref # after \<and>
                  (\<forall>earlier \<in> set before. \<not> fits (candidate earlier)) \<and>
                  fits (candidate pref) \<and>
                  result = candidate pref
           else result =
                  \<lparr>posLeft = max padding (min (posLeft (candidate (hd preferences))) roomLeft),
                   posTop = max padding (min (posTop (candidate (hd preferences))) roomTop),
                   arrow = arrow (candidate (hd preferences))\<rparr> \<and>
                padding \<le> posLeft result \<and> padding \<le> posTop result \<and>
                (\<forall>z. z \<le> padding \<longrightarrow> z \<le> posLeft result \<and> z \<le> posTop result) \<and>
                posLeft result \<le> max padding roomLeft \<and>
                posTop result \<le> max padding roomTop \<and>
                (roomLeft \<le> padding \<longrightarrow> posLeft result = padding) \<and>
                (roomTop \<le> padding \<longrightarrow> posTop result = padding)))"
proof -
  define candidate where "candidate = (\<lambda>pref.
           if pref = ''right'' then
             \<lparr>posLeft = addNum ar (rectRight targetRect) offset,
              posTop = subNum ar (addNum ar (rectTop targetRect)
                                     (halfNum ar (rectHeight targetRect)))
                         (halfNum ar (rectHeight bubbleRect)),
              arrow = ''arrow-left''\<rparr>
           else if pref = ''left'' then
             \<lparr>posLeft = subNum ar (subNum ar (rectLeft targetRect) (rectWidth bubbleRect))
                          offset,
              posTop = subNum ar (addNum ar (rectTop targetRect)
                                     (halfNum ar (rectHeight targetRect)))
                         (halfNum ar (rectHeight bubbleRect)),
              arrow = ''arrow-right''\<rparr>
           else if pref = ''below'' then
             \<lparr>posLeft = subNum ar (addNum ar (rectLeft targetRect)
                                      (halfNum ar (rectWidth targetRect)))
                          (halfNum ar (rectWidth bubbleRect)),
              posTop = addNum ar (rectBottom targetRect) offset,
              arrow = ''arrow-top''\<rparr>
           else
             \<lparr>posLeft = subNum ar (addNum ar (rectLeft targetRect)
                                      (halfNum ar (rectWidth targetRect)))
                          (halfNum ar (rectWidth bubbleRect)),
              posTop = subNum ar (subNum ar (rectTop targetRect) (rectHeight bubbleRect))
                         offset,
              arrow = ''arrow-bottom''\<rparr>)"
  define fits where "fits = (\<lambda>c :: 'n placement.
           padding \<le> posLeft c \<and>
           addNum ar (posLeft c) (rectWidth bubbleRect) \<le> subNum ar vw padding \<and>
           padding \<le> posTop c \<and>
           addNum ar (posTop c) (rectHeight bubbleRect) \<le> subNum ar vh padding)"
  define roomLeft where "roomLeft = subNum ar (subNum ar vw (rectWidth bubbleRect)) padding"
  define roomTop where "roomTop = subNum ar (subNum ar vh (rectHeight bubbleRect)) padding"
  let ?cs = "generatePositionStrategies ar targetRect bubbleRect offset preferences"
  have fits_code:
    "fits c = (fitsHorizontally ar c bubbleRect vw padding \<and>
               fitsVertically ar c bubbleRect vh padding)" for c
    by (auto simp: fits_def fitsHorizontally_def fitsVertically_def)
  have named: "the (strategyNamed ar targetRect bubbleRect offset pref) = candidate pref"
    if "pref \<in> placementNames" for pref
    using that by (auto simp: placementNames_def strategyNamed_def candidate_def)
  have cs: "?cs = map candidate preferences"
    using names named by (simp add: strategies_of_known_names subset_iff)
  obtain p ps where prefs: "preferences = p # ps"
    using nonempty by (cases preferences) auto
  have main: "\<exists>result.
          findBestPosition ar ?cs bubbleRect vw vh padding = Inr result \<and>
          (if \<exists>pref \<in> set preferences. fits (candidate pref)
           then \<exists>before pref after.
                  preferences = before @ pref # after \<and>
                  (\<forall>earlier \<in> set before. \<not> fits (candidate earlier)) \<and>
                  fits (candidate pref) \<and>
                  result = candidate pref
           else result =
                  \<lparr>posLeft = max padding (min (posLeft (candidate (hd preferences))) roomLeft),
                   posTop = max padding (min (posTop (candidate (hd preferences))) roomTop),
                   arrow = arrow (candidate (hd preferences))\<rparr> \<and>
                padding \<le> posLeft result \<and> padding \<le> posTop result \<and>
                (\<forall>z. z \<le> padding \<longrightarrow> z \<le> posLeft result \<and> z \<le> posTop result) \<and>
                posLeft result \<le> max padding roomLeft \<and>
                posTop result \<le> max padding roomTop \<and>
                (roomLeft \<le> padding \<longrightarrow> posLeft result = padding) \<and>
                (roomTop \<le> padding \<longrightarrow> posTop result = padding))"
  proof (cases "firstFitting ar (map candidate preferences) bubbleRect vw vh padding")
    case None
    then have nofit: "\<not> (\<exists>pref \<in> set preferences. fits (candidate pref))"
      using firstFitting_None [of ar "map candidate preferences" bubbleRect vw vh padding]
      by (simp add: fits_code)
    let ?r = "\<lparr>posLeft = max padding (min (posLeft (candidate (hd preferences))) roomLeft),
               posTop = max padding (min (posTop (candidate (hd preferences))) roomTop),
               arrow = arrow (candidate (hd preferences))\<rparr>"
    have "map candidate preferences =
            candidate (hd preferences) # map candidate (tl preferences)"
      unfolding prefs by simp
    then have first: "?cs = candidate (hd preferences) # map candidate (tl preferences)"
      using cs by simp
    have none: "firstFitting ar ?cs bubbleRect vw vh padding = None"
      using None cs by simp
    have res: "findBestPosition ar ?cs bubbleRect vw vh padding = Inr ?r"
      unfolding findBestPosition_def none
      by (simp add: first constrainToViewport_def roomLeft_def roomTop_def)
    have lower: "padding \<le> posLeft ?r" "padding \<le> posTop ?r"
      by simp_all
    have below: "\<forall>z. z \<le> padding \<longrightarrow> z \<le> posLeft ?r \<and> z \<le> posTop ?r"
      using lower by (meson order_trans)
    have upper: "posLeft ?r \<le> max padding roomLeft" "posTop ?r \<le> max padding roomTop"
      by (simp_all add: max.coboundedI2)
    have tight: "roomLeft \<le> padding \<longrightarrow> posLeft ?r = padding"
                "roomTop \<le> padding \<longrightarrow> posTop ?r = padding"
      by (auto simp: max_def min_def)
    show ?thesis
      apply (rule exI [of _ ?r])
      using res nofit lower below upper tight by (simp only: if_False simp_thms)
  next
    case (Some r)
    from firstFitting_map_Some [OF Some] obtain before pref after where
      split: "preferences = before @ pref # after" and r: "r = candidate pref" and
      nb: "\<forall>earlier \<in> set before. \<not> fits (candidate earlier)" and
      fit: "fits (candidate pref)"
      by (auto simp: fits_code)
    have ex: "\<exists>pref \<in> set preferences. fits (candidate pref)"
      using split fit by auto
    have res: "findBestPosition ar ?cs bubbleRect vw vh padding = Inr r"
      using Some by (simp add: cs findBestPosition_def)
    have dec: "\<exists>before pref after.
                  preferences = before @ pref # after \<and>
                  (\<forall>earlier \<in> set before. \<not> fits (candidate earlier)) \<and>
                  fits (candidate pref) \<and>
                  r = candidate pref"
      using split nb fit r by blast
    show ?thesis
      apply (rule exI [of _ r])
      using res ex dec by (simp only: if_True simp_thms)
  qed
  show ?thesis
    unfolding Let_def
    using cs main
    unfolding candidate_def fits_def roomLeft_def roomTop_def
    by (rule conjI)
qed

text \<open>
  Two instances, with exact arithmetic, for a target at (300, 100) of 100 by 50, a bubble of
  300 by 120, and 20 for the offset and the padding. In a viewport of 720 by 800 the
  placements to the right and to the left do not fit and the one below does: the result
  lies within the padded viewport. In a viewport of 250 by 100, smaller than the bubble, a
  placement comes back at the padding from the left and the top edge.
\<close>

theorem findBestPosition_witness:
  "(\<exists>result.
      findBestPosition exactArithmetic
        (generatePositionStrategies exactArithmetic exampleTarget exampleBubble 20
           [''right'', ''left'', ''below'', ''above''])
        exampleBubble 720 800 20 = Inr result \<and>
      20 \<le> posLeft result \<and> posLeft result + 300 \<le> 700 \<and>
      20 \<le> posTop result \<and> posTop result + 120 \<le> 780) \<and>
   (\<exists>result.
      findBestPosition exactArithmetic
        (generatePositionStrategies exactArithmetic exampleTarget exampleBubble 20
           [''right'', ''left'', ''below'', ''above''])
        exampleBubble 250 100 20 = Inr result \<and>
      posLeft result = 20 \<and> posTop result = 20)"
proof -
  let ?prefs = "[''right'', ''left'', ''below'', ''above'']"
  have nonempty: "?prefs \<noteq> []"
    by simp
  have names: "set ?prefs \<subseteq> placementNames"
    by (auto simp: placementNames_def)
  show ?thesis
    using findBestPosition_first_fit_or_clamped
            [OF nonempty names, of exactArithmetic exampleTarget 20 exampleBubble 20 720 800]
          findBestPosition_first_fit_or_clamped
            [OF nonempty names, of exactArithmetic exampleTarget 20 exampleBubble 20 250 100]
    by (auto simp: Let_def exactArithmetic_def exampleTarget_def exampleBubble_def
          split: if_splits)
qed

text \<open>The same two calls evaluated, and a call whose only preference names no placement.\<close>

lemma findBestPosition_third_preference:
  "findBestPosition exactArithmetic
       (generatePositionStrategies exactArithmetic exampleTarget exampleBubble 20
          [''right'', ''left'', ''below'', ''above''])
       exampleBubble 720 800 20 =
     Inr \<lparr>posLeft = 200, posTop = 170, arrow = ''arrow-top''\<rparr>"
  by (simp add: findBestPosition_def generatePositionStrategies_def strategyNamed_def
        exactArithmetic_def exampleTarget_def exampleBubble_def fitsHorizontally_def
        fitsVertically_def constrainToViewport_def)

lemma findBestPosition_oversized_bubble:
  "findBestPosition exactArithmetic
       (generatePositionStrategies exactArithmetic exampleTarget exampleBubble 20
          [''right'', ''left'', ''below'', ''above''])
       exampleBubble 250 100 20 =
     Inr \<lparr>posLeft = 20, posTop = 20, arrow = ''arrow-left''\<rparr>"
  by (simp add: findBestPosition_def generatePositionStrategies_def strategyNamed_def
        exactArithmetic_def exampleTarget_def exampleBubble_def fitsHorizontally_def
        fitsVertically_def constrainToViewport_def)

lemma findBestPosition_no_strategy:
  "findBestPosition exactArithmetic
       (generatePositionStrategies exactArithmetic exampleTarget exampleBubble 20 [''middle''])
       exampleBubble 1000 800 20 =
     Inl (TypeError ''Cannot read properties of undefined (reading 'left')'')"
  by (simp add: findBestPosition_def generatePositionStrategies_def strategyNamed_def)

text \<open>
  With exact arithmetic a clamped bubble that has room on an axis ends within the padded
  viewport on that axis. This rests on \<open>(v - w - p) + w = v - p\<close>, which rounded sums need
  not satisfy, so it is a property of exact arithmetic only.
\<close>

lemma constrainToViewport_exact_within:
  assumes "padding \<le> vw - rectWidth bubbleRect - padding"
  shows "posLeft (constrainToViewport exactArithmetic position bubbleRect vw vh padding) +
           rectWidth bubbleRect \<le> vw - padding"
  using assms by (simp add: constrainToViewport_def exactArithmetic_def)

section \<open>Properties of the retry policy\<close>

lemma withRetryFrom_done:
  "retryAttempts svc < attempt \<Longrightarrow>
   withRetryFrom svc operation context attempt lastError w =
     (Inl lastError, errorAllFailed context w)"
  by (subst withRetryFrom.simps) simp

lemma withRetryFrom_wait:
  "attempt < retryAttempts svc \<Longrightarrow> following = attempt + 1 \<Longrightarrow>
   ms = retryDelay svc * attempt \<Longrightarrow>
   withRetryFrom svc operation context attempt lastError w =
     (case operation w of
        (Inr v, w1) \<Rightarrow> (Inr v, w1)
      | (Inl err, w1) \<Rightarrow>
          withRetryFrom svc operation context following (Some err)
            (delay ms (warnAttemptFailed svc context attempt err w1)))"
  by (subst withRetryFrom.simps) (simp add: Let_def split: prod.splits sum.splits)

lemma withRetryFrom_last:
  "attempt = retryAttempts svc \<Longrightarrow>
   withRetryFrom svc operation context attempt lastError w =
     (case operation w of
        (Inr v, w1) \<Rightarrow> (Inr v, w1)
      | (Inl err, w1) \<Rightarrow>
          (Inl (Some err),
           errorAllFailed context (warnAttemptFailed svc context attempt err w1)))"
  by (subst withRetryFrom.simps)
     (simp add: Let_def withRetryFrom_done split: prod.splits sum.splits)

text \<open>
  The loop of the constructed service written out: the operation runs once, twice or
  three times, with a wait of 1000 ms before the second and of 2000 ms before the third
  run and none after the third.
\<close>

lemma withRetry_unrolled:
  "withRetry newGoogleSheetsService operation context w0 =
     (case operation w0 of
        (Inr v, w1) \<Rightarrow> (Inr v, w1)
      | (Inl e1, w1) \<Rightarrow>
         (case operation
                 (delay 1000 (warnAttemptFailed newGoogleSheetsService context 1 e1 w1)) of
            (Inr v, w2) \<Rightarrow> (Inr v, w2)
          | (Inl e2, w2) \<Rightarrow>
             (case operation
                     (delay 2000 (warnAttemptFailed newGoogleSheetsService context 2 e2 w2)) of
                (Inr v, w3) \<Rightarrow> (Inr v, w3)
              | (Inl e3, w3) \<Rightarrow>
                  (Inl (Some e3),
                   errorAllFailed context
                     (warnAttemptFailed newGoogleSheetsService context 3 e3 w3)))))"
proof -
  have n: "retryAttempts newGoogleSheetsService = 3"
          "retryDelay newGoogleSheetsService = 1000"
    by (simp_all add: newGoogleSheetsService_def)
  have s1: "\<And>l w. withRetryFrom newGoogleSheetsService operation context 1 l w =
     (case operation w of
        (Inr v, w1) \<Rightarrow> (Inr v, w1)
      | (Inl err, w1) \<Rightarrow>
          withRetryFrom newGoogleSheetsService operation context 2 (Some err)
            (delay 1000 (warnAttemptFailed newGoogleSheetsService context 1 err w1)))"
    by (rule withRetryFrom_wait) (simp_all add: n)
  have s2: "\<And>l w. withRetryFrom newGoogleSheetsService operation context 2 l w =
     (case operation w of
        (Inr v, w1) \<Rightarrow> (Inr v, w1)
      | (Inl err, w1) \<Rightarrow>
          withRetryFrom newGoogleSheetsService operation context 3 (Some err)
            (delay 2000 (warnAttemptFailed newGoogleSheetsService context 2 err w1)))"
    by (rule withRetryFrom_wait) (simp_all add: n)
  have s3: "\<And>l w. withRetryFrom newGoogleSheetsService operation context 3 l w =
     (case operation w of
        (Inr v, w1) \<Rightarrow> (Inr v, w1)
      | (Inl err, w1) \<Rightarrow>
          (Inl (Some err),
           errorAllFailed context
             (warnAttemptFailed newGoogleSheetsService context 3 err w1)))"
    by (rule withRetryFrom_last) (simp add: n)
  show ?thesis
    unfolding withRetry_def s1 s2 s3 ..
qed

text \<open>
  Counting requests: what \<open>withRetry\<close> itself writes between attempts is no request, so an
  operation whose attempt sends at most one request sends at most three.
\<close>

lemma requestsSent_emit:
  "requestsSent (emit e w) = requestsSent w + (if isFetch e then 1 else 0)"
  by (simp add: requestsSent_def emit_def)

lemma requestsSent_between:
  "requestsSent (delay ms (warnAttemptFailed svc ctx k e w)) = requestsSent w"
  "requestsSent (errorAllFailed ctx (warnAttemptFailed svc ctx k e w)) = requestsSent w"
  by (simp_all add: delay_def warnAttemptFailed_def errorAllFailed_def requestsSent_emit isFetch_def)

lemma withRetry_requests:
  assumes one: "\<And>w. requestsSent (snd (operation w)) \<le> requestsSent w + 1"
  shows "requestsSent (snd (withRetry newGoogleSheetsService operation ctx w0)) \<le> requestsSent w0 + 3"
proof -
  obtain r1 w1 where o1: "operation w0 = (r1, w1)" by (cases "operation w0")
  have b1: "requestsSent w1 \<le> requestsSent w0 + 1" using one [of w0] o1 by simp
  show ?thesis
  proof (cases r1)
    case (Inr v)
    then show ?thesis using o1 b1 by (simp add: withRetry_unrolled)
  next
    case (Inl e1)
    let ?w1 = "delay 1000 (warnAttemptFailed newGoogleSheetsService ctx 1 e1 w1)"
    obtain r2 w2 where o2: "operation ?w1 = (r2, w2)" by (cases "operation ?w1")
    have b2: "requestsSent w2 \<le> requestsSent w0 + 2"
      using one [of ?w1] o2 b1 by (simp add: requestsSent_between)
    show ?thesis
    proof (cases r2)
      case (Inr v)
      then show ?thesis using o1 Inl o2 b2 by (simp add: withRetry_unrolled)
    next
      case e2: (Inl e2)
      let ?w2 = "delay 2000 (warnAttemptFailed newGoogleSheetsService ctx 2 e2 w2)"
      obtain r3 w3 where o3: "operation ?w2 = (r3, w3)" by (cases "operation ?w2")
      have b3: "requestsSent w3 \<le> requestsSent w0 + 3"
        using one [of ?w2] o3 b2 by (simp add: requestsSent_between)
      show ?thesis
        using o1 Inl o2 e2 o3 b3
        by (cases r3) (simp_all add: withRetry_unrolled requestsSent_between)
    qed
  qed
qed

lemma attempts_send_one:
  "requestsSent (snd (getSheetDataAttempt sid sheet w)) \<le> requestsSent w + 1"
  "requestsSent (snd (appendSheetDataAttempt sid sheet newData w)) \<le> requestsSent w + 1"
  "requestsSent (snd (updateSheetDataAttempt sid cellRange rows w)) \<le> requestsSent w + 1"
  "requestsSent (snd (batchUpdateAttempt sid ops w)) \<le> requestsSent w + 1"
  by (auto simp: getSheetDataAttempt_def appendSheetDataAttempt_def updateSheetDataAttempt_def
        batchUpdateAttempt_def andThen_def getAccessToken_def fetch_def parsed_def throw_def
        valuesOrEmpty_def checkedResult_def resolve_def requestsSent_emit isFetch_def
        split: sum.splits prod.splits json.splits option.splits if_splits)

text \<open>
  C1, as stated, fails in its last part: the error that reaches the caller carries no
  context string. With a server that answers 500 to everything, reading a sheet and
  updating a range (two operations with different context strings) both reject with the
  very error their attempt threw, \<open>Error('HTTP 500: Internal Server Error')\<close>.
\<close>

theorem withRetry_error_carries_no_context:
  "fst (getSheetDataAttempt ''id'' ''Sheet1'' downWorld) =
     Inl (Error ''HTTP 500: Internal Server Error'') \<and>
   fst (getSheetData newGoogleSheetsService ''id'' ''Sheet1'' downWorld) =
     Inl (Some (Error ''HTTP 500: Internal Server Error'')) \<and>
   fst (updateSheetData newGoogleSheetsService ''id'' ''Sheet1!A2:J2'' [] downWorld) =
     Inl (Some (Error ''HTTP 500: Internal Server Error''))"
  by code_simp

text \<open>
  C1, amended: each of \<open>getSheetData\<close>, \<open>appendSheetData\<close>, \<open>updateSheetData\<close> and
  \<open>batchUpdate\<close> is \<open>withRetry\<close> of its attempt with its context string, and \<open>withRetry\<close> of
  the constructed service runs the attempt at most three times, so that each of the four
  sends at most three requests. If attempts 1 and 2 fail
  and attempt 3 succeeds, the result is the success of attempt 3, after exactly two waits,
  1000 ms before attempt 2 and 2000 ms before attempt 3. If all three fail, the caller gets
  the error of attempt 3 itself, unchanged; the context string goes to the console only (a
  warning for each failed attempt and one final error line).
\<close>

theorem withRetry_three_attempts_linear_backoff:
  "withRetry newGoogleSheetsService operation context w0 =
     (case operation w0 of
        (Inr v, w1) \<Rightarrow> (Inr v, w1)
      | (Inl e1, w1) \<Rightarrow>
         (case operation
                 (delay 1000 (warnAttemptFailed newGoogleSheetsService context 1 e1 w1)) of
            (Inr v, w2) \<Rightarrow> (Inr v, w2)
          | (Inl e2, w2) \<Rightarrow>
             (case operation
                     (delay 2000 (warnAttemptFailed newGoogleSheetsService context 2 e2 w2)) of
                (Inr v, w3) \<Rightarrow> (Inr v, w3)
              | (Inl e3, w3) \<Rightarrow>
                  (Inl (Some e3),
                   errorAllFailed context
                     (warnAttemptFailed newGoogleSheetsService context 3 e3 w3))))) \<and>
   (operation w0 = (Inl e1, w1) \<longrightarrow>
    operation (delay 1000 (warnAttemptFailed newGoogleSheetsService context 1 e1 w1)) =
      (Inl e2, w2) \<longrightarrow>
    operation (delay 2000 (warnAttemptFailed newGoogleSheetsService context 2 e2 w2)) =
      (Inr v, w3) \<longrightarrow>
    withRetry newGoogleSheetsService operation context w0 = (Inr v, w3)) \<and>
   (operation w0 = (Inl e1, w1) \<longrightarrow>
    operation (delay 1000 (warnAttemptFailed newGoogleSheetsService context 1 e1 w1)) =
      (Inl e2, w2) \<longrightarrow>
    operation (delay 2000 (warnAttemptFailed newGoogleSheetsService context 2 e2 w2)) =
      (Inl e3, w3) \<longrightarrow>
    withRetry newGoogleSheetsService operation context w0 =
      (Inl (Some e3),
       errorAllFailed context (warnAttemptFailed newGoogleSheetsService context 3 e3 w3))) \<and>
   getSheetData svc spreadsheetId sheetName =
     withRetry svc (getSheetDataAttempt spreadsheetId sheetName)
       (''Getting data from sheet '' @ sheetName) \<and>
   appendSheetData svc spreadsheetId sheetName newData =
     withRetry svc (appendSheetDataAttempt spreadsheetId sheetName newData)
       (''Appending data to sheet '' @ sheetName) \<and>
   updateSheetData svc spreadsheetId cellRange rows =
     withRetry svc (updateSheetDataAttempt spreadsheetId cellRange rows)
       (''Updating range '' @ cellRange @ '' in spreadsheet'') \<and>
   batchUpdate svc spreadsheetId operations =
     withRetry svc (batchUpdateAttempt spreadsheetId operations)
       (''Batch updating spreadsheet '' @ spreadsheetId) \<and>
   requestsSent (snd (getSheetData newGoogleSheetsService spreadsheetId sheetName w)) \<le>
     requestsSent w + 3 \<and>
   requestsSent (snd (appendSheetData newGoogleSheetsService spreadsheetId sheetName newData w)) \<le>
     requestsSent w + 3 \<and>
   requestsSent (snd (updateSheetData newGoogleSheetsService spreadsheetId cellRange rows w)) \<le>
     requestsSent w + 3 \<and>
   requestsSent (snd (batchUpdate newGoogleSheetsService spreadsheetId operations w)) \<le>
     requestsSent w + 3"
proof -
  have bound:
    "requestsSent (snd (getSheetData newGoogleSheetsService spreadsheetId sheetName w)) \<le>
       requestsSent w + 3"
    "requestsSent (snd (appendSheetData newGoogleSheetsService spreadsheetId sheetName newData w)) \<le>
       requestsSent w + 3"
    "requestsSent (snd (updateSheetData newGoogleSheetsService spreadsheetId cellRange rows w)) \<le>
       requestsSent w + 3"
    "requestsSent (snd (batchUpdate newGoogleSheetsService spreadsheetId operations w)) \<le>
       requestsSent w + 3"
    unfolding getSheetData_def appendSheetData_def updateSheetData_def batchUpdate_def
    by (rule withRetry_requests, rule attempts_send_one)+
  show ?thesis
    using bound
    by (simp add: withRetry_unrolled getSheetData_def appendSheetData_def updateSheetData_def
          batchUpdate_def fun_eq_iff)
qed

text \<open>
  An instance: against a server that answers 500 until the client has waited twice,
  \<open>getSheetData\<close> returns the rows; the waits in its trace are 1000 and 2000, and it has
  sent three requests.
\<close>

theorem withRetry_three_attempts_witness:
  "fst (getSheetData newGoogleSheetsService ''id'' ''Sheet1'' flakyWorld) = Inr sheetRows \<and>
   filter isDelay
     (events (snd (getSheetData newGoogleSheetsService ''id'' ''Sheet1'' flakyWorld))) =
     [Delay 1000, Delay 2000] \<and>
   length (filter isFetch
     (events (snd (getSheetData newGoogleSheetsService ''id'' ''Sheet1'' flakyWorld)))) = 3"
proof -
  let ?op = "getSheetDataAttempt ''id'' ''Sheet1'' :: (js_error, row list, world) action"
  let ?e = "Error ''HTTP 500: Internal Server Error''"
  let ?ctx = "''Getting data from sheet Sheet1''"
  have f1: "fst (?op flakyWorld) = Inl ?e" by code_simp
  have f2: "fst (?op flakyAfter1) = Inl ?e" by code_simp
  have f3: "fst (?op flakyAfter2) = Inr sheetRows" by code_simp
  have a1: "?op flakyWorld = (Inl ?e, snd (?op flakyWorld))"
    using f1 by (simp add: prod_eq_iff)
  have a2: "?op (delay 1000 (warnAttemptFailed newGoogleSheetsService ?ctx 1 ?e
                  (snd (?op flakyWorld)))) = (Inl ?e, snd (?op flakyAfter1))"
    using f2 by (simp add: prod_eq_iff flakyAfter1_def)
  have a3: "?op (delay 2000 (warnAttemptFailed newGoogleSheetsService ?ctx 2 ?e
                  (snd (?op flakyAfter1)))) = (Inr sheetRows, snd (?op flakyAfter2))"
    using f3 by (simp add: prod_eq_iff flakyAfter2_def)
  have r: "withRetry newGoogleSheetsService ?op ?ctx flakyWorld =
             (Inr sheetRows, snd (?op flakyAfter2))"
    using withRetry_three_attempts_linear_backoff
            [of ?op ?ctx flakyWorld ?e "snd (?op flakyWorld)" ?e "snd (?op flakyAfter1)"
               sheetRows "snd (?op flakyAfter2)"]
          a1 a2 a3
    by blast
  have g: "getSheetData newGoogleSheetsService ''id'' ''Sheet1'' flakyWorld =
             (Inr sheetRows, snd (?op flakyAfter2))"
    using r by (simp add: getSheetData_def)
  have ev: "filter isDelay (events (snd (?op flakyAfter2))) = [Delay 1000, Delay 2000]"
    by code_simp
  have fe: "length (filter isFetch (events (snd (?op flakyAfter2)))) = 3"
    by code_simp
  show ?thesis using ev fe by (simp add: g)
qed

section \<open>Properties of saving a response\<close>

lemma replicate10: "replicate 10 x = [x,x,x,x,x,x,x,x,x,x]"
  by (simp add: numeral_eq_Suc)

lemma row_of_data:
  "transformObjectToRow (onomatopoeiaDataOf js infoDict a) onomatopoeiaMapping =
     Inr (onomatopoeiaRow js infoDict a)"
  by (simp add: transformObjectToRow_def onomatopoeiaMapping_def onomatopoeiaDataOf_def
        onomatopoeiaRow_def readProp_def replicate10)

lemma emit_fields [simp]:
  "events (emit e w) = events w @ [e]"
  "respond (emit e w) = respond w"
  "tokenAt (emit e w) = tokenAt w"
  by (simp_all add: emit_def)

lemma withRetry_first_success:
  "operation w = (Inr v, w1) \<Longrightarrow>
   withRetry newGoogleSheetsService operation context w = (Inr v, w1)"
  by (simp add: withRetry_unrolled)

lemma appendSheetDataAttempt_ok:
  assumes "tokenAt w (events w) = Inr accessToken"
      and "respond w (events w @ [TokenRequested])
             (appendRequest accessToken sid sheet newData) = Inr resp"
      and "ok resp" and "parsedBody resp = Inr (JObject obj)" and "jsonError obj = None"
  shows "appendSheetDataAttempt sid sheet newData w =
           (Inr (JObject obj),
            emit (Fetch (appendRequest accessToken sid sheet newData)) (emit TokenRequested w))"
  using assms
  by (simp add: appendSheetDataAttempt_def andThen_def getAccessToken_def fetch_def parsed_def
        checkedResult_def resolve_def)


lemma pushLocal_fields:
  "filteredData (pushLocal r app) = filteredData app @ [r]"
  "localStorage (pushLocal r app) ''filteredData'' = Some (map jsonObjectOf (filteredData app @ [r]))"
  "events (pushLocal r app) = events app"
  "getText (pushLocal r app) = getText app"
  by (simp_all add: pushLocal_def Let_def)

lemma sendsOnlyPosts_refl: "sendsOnlyPosts es es"
  by (simp add: sendsOnlyPosts_def)

lemma sendsOnlyPosts_trans:
  "sendsOnlyPosts a b \<Longrightarrow> sendsOnlyPosts b c \<Longrightarrow> sendsOnlyPosts a c"
  unfolding sendsOnlyPosts_def by (metis Un_iff append.assoc set_append)

lemma sendsOnlyPosts_snoc:
  "sendsOnlyPosts a b \<Longrightarrow> \<not> isFetch e \<Longrightarrow> sendsOnlyPosts a (b @ [e])"
  unfolding sendsOnlyPosts_def by (auto simp: isFetch_def)

lemma appendAttempt_posts:
  "sendsOnlyPosts (events w) (events (snd (appendSheetDataAttempt sid sheet newData w)))"
  unfolding sendsOnlyPosts_def
  by (auto simp: appendSheetDataAttempt_def andThen_def getAccessToken_def fetch_def parsed_def
        throw_def appendRequest_def checkedResult_def resolve_def emit_def
        split: sum.splits prod.splits json.splits option.splits if_splits)

lemma withRetryFrom_posts:
  assumes step: "\<And>w. sendsOnlyPosts (events w) (events (snd (operation w)))"
  shows "sendsOnlyPosts (events w)
           (events (snd (withRetryFrom svc operation ctx attempt lastError w)))"
  using step
proof (induction svc operation ctx attempt lastError w rule: withRetryFrom.induct)
  case (1 svc operation ctx attempt lastError w)
  show ?case
  proof (cases "attempt \<le> retryAttempts svc")
    case False
    then show ?thesis
      by (subst withRetryFrom.simps)
         (simp add: errorAllFailed_def sendsOnlyPosts_snoc sendsOnlyPosts_refl isFetch_def)
  next
    case True
    show ?thesis
    proof (cases "operation w")
      case (Pair r w1)
      have s1: "sendsOnlyPosts (events w) (events w1)"
        using "1.prems" [of w] Pair by simp
      show ?thesis
      proof (cases r)
        case (Inr v)
        then show ?thesis using True Pair s1 by (subst withRetryFrom.simps) simp
      next
        case (Inl err)
        let ?w2 = "warnAttemptFailed svc ctx attempt err w1"
        let ?w3 = "if attempt < retryAttempts svc then delay (retryDelay svc * attempt) ?w2 else ?w2"
        have s2: "sendsOnlyPosts (events w) (events ?w2)"
          using s1 by (simp add: warnAttemptFailed_def sendsOnlyPosts_snoc isFetch_def)
        have s3: "sendsOnlyPosts (events w) (events ?w3)"
          using s2 by (simp add: delay_def sendsOnlyPosts_snoc isFetch_def)
        have ih: "sendsOnlyPosts (events ?w3)
           (events (snd (withRetryFrom svc operation ctx (attempt + 1) (Some err) ?w3)))"
          using "1.IH" [OF True Pair [symmetric] Inl refl refl "1.prems"] by simp
        have "withRetryFrom svc operation ctx attempt lastError w =
                withRetryFrom svc operation ctx (attempt + 1) (Some err) ?w3"
          using True Pair Inl by (subst withRetryFrom.simps) (simp add: Let_def)
        then show ?thesis using sendsOnlyPosts_trans [OF s3 ih] by simp
      qed
    qed
  qed
qed


lemma sendsOnlyPosts_added:
  "sendsOnlyPosts a b \<Longrightarrow> list_all (\<lambda>e. \<not> isFetch e) xs \<Longrightarrow> sendsOnlyPosts a (b @ xs)"
  unfolding sendsOnlyPosts_def by (fastforce simp: isFetch_def list_all_iff)

lemma uploadIfRecorded_posts:
  "sendsOnlyPosts (events w) (events (snd (uploadIfRecorded infoDict verbose w)))"
  by (auto simp: uploadIfRecorded_def uploadAudioFile_def Let_def sendsOnlyPosts_refl
        sendsOnlyPosts_added isFetch_def split: sum.splits)

lemma saveOnomatopoeiaRow_posts:
  "sendsOnlyPosts (events w) (events (snd (saveOnomatopoeiaRow svc sid sheet d w)))"
  by (auto simp: saveOnomatopoeiaRow_def throw_def sendsOnlyPosts_refl appendSheetData_def
        withRetry_def intro!: withRetryFrom_posts appendAttempt_posts split: sum.splits)

text \<open>Whatever the network does, saving sends no request but POSTs: it never reads the store.\<close>

lemma saveOnomatopoeia_posts:
  "sendsOnlyPosts (events app)
     (events (snd (saveOnomatopoeia js svc infoDict sid sheet verbose app)))"
proof (cases "validateOnomatopoeiaData (getText app) infoDict")
  case (Inl e)
  then show ?thesis by (simp add: saveOnomatopoeia_def sendsOnlyPosts_refl)
next
  case (Inr v)
  show ?thesis
  proof (cases v)
    case (Some m)
    then show ?thesis using Inr
      by (simp add: saveOnomatopoeia_def sendsOnlyPosts_refl sendsOnlyPosts_snoc isFetch_def)
  next
    case None
    obtain a app1 where u: "uploadIfRecorded infoDict verbose app = (a, app1)"
      by (cases "uploadIfRecorded infoDict verbose app")
    obtain r app2 where sv: "saveOnomatopoeiaRow svc sid sheet (onomatopoeiaDataOf js infoDict a) app1 = (r, app2)"
      by (cases "saveOnomatopoeiaRow svc sid sheet (onomatopoeiaDataOf js infoDict a) app1")
    have s1: "sendsOnlyPosts (events app) (events app1)"
      using uploadIfRecorded_posts [of app infoDict verbose] u by simp
    have s2: "sendsOnlyPosts (events app1) (events app2)"
      using saveOnomatopoeiaRow_posts [of app1 svc sid sheet "onomatopoeiaDataOf js infoDict a"] sv by simp
    have s: "sendsOnlyPosts (events app) (events app2)"
      by (rule sendsOnlyPosts_trans [OF s1 s2])
    show ?thesis
      using Inr None u sv s
      by (auto simp: saveOnomatopoeia_def Let_def pushLocal_fields sendsOnlyPosts_snoc isFetch_def
            split: sum.splits)
  qed
qed

text \<open>
  With a record for the current video already in \<open>filteredData\<close>, a click on "No" sends
  nothing and pushes nothing: no second sentinel for the video.
\<close>

lemma handleNoOnomatopoeia_already_answered:
  assumes "currentVideoData app \<noteq> []"
  shows "filteredData (handleNoOnomatopoeia js svc app) = filteredData app \<and>
         filter isFetch (events (handleNoOnomatopoeia js svc app)) = filter isFetch (events app)"
proof -
  have cv: "\<And>es. currentVideoData (app\<lparr>events := es\<rparr>) = currentVideoData app"
    by (simp add: currentVideoData_def)
  show ?thesis
    using assms
    by (cases "currentButton app")
       (auto simp: handleNoOnomatopoeia_def Let_def cv emit_def goToNextVideo_def
          resetDisplayForCurrentVideo_def isFetch_def)
qed

text \<open>The two records of a sentinel, for every state of the page and every runtime.\<close>

lemma sentinel_records:
  "onomatopoeiaRow js (noOnomatopoeiaInfo app) Null ! 3 = Str ''null'' \<and>
   onomatopoeiaRow js (noOnomatopoeiaInfo app) Null ! 4 = NaN \<and>
   onomatopoeiaRow js (noOnomatopoeiaInfo app) Null ! 5 = NaN \<and>
   map jsonCell (onomatopoeiaRow js (noOnomatopoeiaInfo app) Null) ! 4 = Null \<and>
   map jsonCell (onomatopoeiaRow js (noOnomatopoeiaInfo app) Null) ! 5 = Null \<and>
   readProp (updatedInfoDictOf (noOnomatopoeiaInfo app) Null) ''movement'' = Str ''null'' \<and>
   readProp (updatedInfoDictOf (noOnomatopoeiaInfo app) Null) ''startTime'' = Str ''null'' \<and>
   readProp (updatedInfoDictOf (noOnomatopoeiaInfo app) Null) ''endTime'' = Str ''null''"
  by (simp add: onomatopoeiaRow_def noOnomatopoeiaInfo_def readProp_def parseFloat_def
        toStringJs_def parseFloatString_def takeSign_def isSpace_def isDigit_def jsonCell_def
        updatedInfoDictOf_def)

text \<open>
  C6: the sentinel of \<open>handleNoOnomatopoeia\<close> keeps \<open>"null"\<close> in all three fields only in the
  local record. On its way to the store \<open>saveOnomatopoeia\<close> applies \<open>parseFloat\<close> to
  \<open>startTime\<close> and \<open>endTime\<close>; \<open>parseFloat("null")\<close> is \<open>NaN\<close>, which \<open>JSON.stringify\<close> writes as
  \<open>null\<close>. The row that is appended holds the string \<open>"null"\<close> in \<open>movement\<close> alone.
\<close>

theorem sentinel_row_is_partial:
  "sentRows (events (handleNoOnomatopoeia exampleRuntime newGoogleSheetsService exampleApp)) =
     [[Num 7, Str ''Ann'', Str ''1.mp4'', Str ''null'', Null, Null,
       Str ''2025-01-01T10:00:00Z'', Num 0, Str [], Null]] \<and>
   map (\<lambda>r. map (readProp r) [''movement'', ''startTime'', ''endTime''])
     (filteredData (handleNoOnomatopoeia exampleRuntime newGoogleSheetsService exampleApp)) =
     [[Str ''null'', Str ''null'', Str ''null'']]"
  by code_simp

text \<open>
  C7, as stated, fails where it calls the local record the same as the one appended: for
  \<open>{movement: "swoosh", startTime: "1.20", endTime: "2.40"}\<close> without audio the row holds
  \<open>audioFileName = ""\<close> and the numbers 1.2 and 2.4, the record pushed onto \<open>filteredData\<close>
  holds \<open>audioFileName = null\<close> and the texts \<open>"1.20"\<close> and \<open>"2.40"\<close>.
\<close>

theorem saveOnomatopoeia_local_record_differs:
  "sentRows (events (snd (saveOnomatopoeia exampleRuntime newGoogleSheetsService swooshInfo
       ''sheet-id'' ''Onomatopoeia'' True exampleApp))) =
     [[Num 7, Str ''Ann'', Str ''1.mp4'', Str ''swoosh'', Num (6 / 5), Num (12 / 5),
       Str ''2025-01-01T10:00:00Z'', Num 0, Str [], Null]] \<and>
   map (\<lambda>r. map (readProp r) [''hasAudio'', ''audioFileName'', ''startTime'', ''endTime''])
     (filteredData (snd (saveOnomatopoeia exampleRuntime newGoogleSheetsService swooshInfo
       ''sheet-id'' ''Onomatopoeia'' True exampleApp))) =
     [[Num 0, Null, Str ''1.20'', Str ''2.40'']]"
  by code_simp

text \<open>
  C7, amended: saving a valid description with no recording (\<open>hasAudio\<close> 0, no \<open>audioBlob\<close>),
  when the first attempt of the append succeeds: the row sent has \<open>hasAudio = 0\<close> and
  \<open>audioFileName = ""\<close>; the trace grows by one token request and one request, the POST
  that appends this row (and the success message when \<open>verbose\<close>), so nothing is read from
  the store; one record is pushed onto \<open>filteredData\<close>, which is the input record without
  \<open>audioBlob\<close> and with \<open>hasAudio = 0\<close>, every other field but \<open>audioFileName\<close> as it was
  given (the times stay the texts of the display, while the row holds their \<open>parseFloat\<close>);
  and local storage holds the new \<open>filteredData\<close>.
\<close>

theorem saveOnomatopoeia_without_audio:
  assumes valid: "validateOnomatopoeiaData (getText app) infoDict = Inr None"
      and noAudio: "readProp infoDict ''hasAudio'' = Num 0"
                   "\<not> truthy (readProp infoDict ''audioBlob'')"
      and token: "tokenAt app (events app) = Inr accessToken"
      and answer: "respond app (events app @ [TokenRequested])
                     (appendRequest accessToken sid sheet
                        (OneRow (onomatopoeiaRow js infoDict Null))) = Inr resp"
      and okr: "ok resp" "parsedBody resp = Inr (JObject obj)" "jsonError obj = None"
  shows "\<exists>app' local.
     saveOnomatopoeia js newGoogleSheetsService infoDict sid sheet verbose app = (Inr (), app') \<and>
     transformObjectToRow (onomatopoeiaDataOf js infoDict Null) onomatopoeiaMapping =
       Inr (onomatopoeiaRow js infoDict Null) \<and>
     onomatopoeiaRow js infoDict Null ! 7 = Num 0 \<and>
     onomatopoeiaRow js infoDict Null ! 8 = Str [] \<and>
     events app' =
       events app @
       [TokenRequested,
        Fetch (appendRequest accessToken sid sheet (OneRow (onomatopoeiaRow js infoDict Null)))] @
       (if verbose then [ShowSuccess (getText app ''survey.success_saved'')] else []) \<and>
     filteredData app' = filteredData app @ [local] \<and>
     local ''audioBlob'' = None \<and>
     readProp local ''hasAudio'' = Num 0 \<and>
     (\<forall>key. key \<notin> {''hasAudio'', ''audioFileName'', ''audioBlob''} \<longrightarrow> local key = infoDict key) \<and>
     localStorage app' ''filteredData'' = Some (map jsonObjectOf (filteredData app'))"
proof -
  let ?row = "onomatopoeiaRow js infoDict Null"
  let ?req = "appendRequest accessToken sid sheet (OneRow ?row)"
  let ?app2 = "emit (Fetch ?req) (emit TokenRequested app)"
  let ?local = "updatedInfoDictOf infoDict Null"
  let ?app3 = "pushLocal ?local ?app2"
  let ?app' = "if verbose then emit (ShowSuccess (getText ?app3 ''survey.success_saved'')) ?app3 else ?app3"
  have up: "uploadIfRecorded infoDict verbose app = (Null, app)"
    using noAudio by (simp add: uploadIfRecorded_def)
  have att: "appendSheetDataAttempt sid sheet (OneRow ?row) app = (Inr (JObject obj), ?app2)"
    by (rule appendSheetDataAttempt_ok [OF token answer okr])
  have app: "saveOnomatopoeiaRow newGoogleSheetsService sid sheet
               (onomatopoeiaDataOf js infoDict Null) app = (Inr (JObject obj), ?app2)"
    using withRetry_first_success
            [of "appendSheetDataAttempt sid sheet (OneRow ?row)" app "JObject obj" ?app2, OF att]
    by (simp add: saveOnomatopoeiaRow_def row_of_data appendSheetData_def)
  have nostrict: "\<not> strictEquals (readProp infoDict ''hasAudio'') (Num 1)"
    using noAudio by (simp add: strictEquals_def)
  have save: "saveOnomatopoeia js newGoogleSheetsService infoDict sid sheet verbose app = (Inr (), ?app')"
    unfolding saveOnomatopoeia_def
    by (simp add: valid up app truthyJson_def nostrict Let_def)
  have r7: "?row ! 7 = Num 0" using noAudio by (simp add: onomatopoeiaRow_def orElse_def truthy_def)
  have r8: "?row ! 8 = Str []" by (simp add: onomatopoeiaRow_def orElse_def truthy_def)
  have ev: "events ?app' = events app @ [TokenRequested, Fetch ?req] @
       (if verbose then [ShowSuccess (getText app ''survey.success_saved'')] else [])"
    by (simp add: pushLocal_fields emit_def)
  have fd: "filteredData ?app' = filteredData app @ [?local]"
    by (simp add: pushLocal_fields emit_def)
  have l1: "?local ''audioBlob'' = None" by (simp add: updatedInfoDictOf_def)
  have l2: "readProp ?local ''hasAudio'' = Num 0"
    using noAudio by (simp add: updatedInfoDictOf_def readProp_def orElse_def truthy_def)
  have l3: "\<forall>key. key \<notin> {''hasAudio'', ''audioFileName'', ''audioBlob''} \<longrightarrow> ?local key = infoDict key"
    by (simp add: updatedInfoDictOf_def)
  have ls: "localStorage ?app' ''filteredData'' = Some (map jsonObjectOf (filteredData ?app'))"
    by (simp add: pushLocal_fields emit_def)
  show ?thesis
    using save row_of_data r7 r8 ev fd l1 l2 l3 ls by blast
qed

theorem saveOnomatopoeia_without_audio_witness:
  "fst (saveOnomatopoeia exampleRuntime newGoogleSheetsService swooshInfo
          ''sheet-id'' ''Onomatopoeia'' True exampleApp) = Inr () \<and>
   length (filteredData (snd (saveOnomatopoeia exampleRuntime newGoogleSheetsService swooshInfo
          ''sheet-id'' ''Onomatopoeia'' True exampleApp))) = 1 \<and>
   length (filter isFetch (events (snd (saveOnomatopoeia exampleRuntime newGoogleSheetsService
          swooshInfo ''sheet-id'' ''Onomatopoeia'' True exampleApp)))) = 1"
proof -
  let ?resp = "okWith (JObject \<lparr>jsonValues = None, jsonError = None\<rparr>)"
  have valid: "validateOnomatopoeiaData (getText exampleApp) swooshInfo = Inr None"
    by code_simp
  have noAudio: "readProp swooshInfo ''hasAudio'' = Num 0"
                "\<not> truthy (readProp swooshInfo ''audioBlob'')"
    by code_simp+
  have token: "tokenAt exampleApp (events exampleApp) = Inr ''token''"
    by code_simp
  have answer: "respond exampleApp (events exampleApp @ [TokenRequested])
                  (appendRequest ''token'' ''sheet-id'' ''Onomatopoeia''
                     (OneRow (onomatopoeiaRow exampleRuntime swooshInfo Null))) = Inr ?resp"
    by code_simp
  have okr: "ok ?resp"
            "parsedBody ?resp = Inr (JObject \<lparr>jsonValues = None, jsonError = None\<rparr>)"
            "jsonError \<lparr>jsonValues = None, jsonError = None\<rparr> = None"
    by (simp_all add: okWith_def)
  have start: "filteredData exampleApp = []" "events exampleApp = []"
    by code_simp+
  from saveOnomatopoeia_without_audio [OF valid noAudio token answer okr, of True]
  obtain app' local where
    r: "saveOnomatopoeia exampleRuntime newGoogleSheetsService swooshInfo
          ''sheet-id'' ''Onomatopoeia'' True exampleApp = (Inr (), app')"
    and ev: "events app' =
       events exampleApp @
       [TokenRequested,
        Fetch (appendRequest ''token'' ''sheet-id'' ''Onomatopoeia''
                 (OneRow (onomatopoeiaRow exampleRuntime swooshInfo Null)))] @
       (if True then [ShowSuccess (getText exampleApp ''survey.success_saved'')] else [])"
    and fd: "filteredData app' = filteredData exampleApp @ [local]"
    by blast
  show ?thesis
    by (simp add: r ev fd start isFetch_def)
qed

end
